theory Spec2Isabelle
  imports Main "HOL-Library.Word"
begin

unbundle bit_operations_syntax

section \<open>Utils/Assert.h\<close>

text \<open>
  The only file the engine writes is \<^verbatim>\<open>AssertLog.txt\<close>, opened in append mode by
  \<^verbatim>\<open>Assertion::Assert\<close>. The file system is therefore modelled by the text of that
  file together with the answer \<^verbatim>\<open>std::ofstream::is_open\<close> gives after the open.
\<close>

record filesystem =
  AssertLog_opens :: bool
  AssertLog_txt :: string

text \<open>
  A call either returns to its caller or ends in \<^verbatim>\<open>std::abort()\<close>. Both carry the
  state reached: the log file outlives the aborted process.
\<close>

datatype 's outcome = Returned 's | Aborted 's

fun aborted :: "'s outcome \<Rightarrow> bool" where
  "aborted (Aborted s) = True"
| "aborted (Returned s) = False"

fun final :: "'s outcome \<Rightarrow> 's" where
  "final (Aborted s) = s"
| "final (Returned s) = s"

text \<open>Decimal output of \<^verbatim>\<open>operator<<(int)\<close>.\<close>

fun show_nat :: "nat \<Rightarrow> string" where
  "show_nat n =
     (if n < 10 then [''0123456789'' ! n]
      else show_nat (n div 10) @ [''0123456789'' ! (n mod 10)])"

declare show_nat.simps [simp del]

definition show_int :: "int \<Rightarrow> string" where
  "show_int i = (if i < 0 then CHR ''-'' # show_nat (nat (- i)) else show_nat (nat i))"

definition newline :: char where
  "newline = char_of (10 :: nat)"

text \<open>The three lines and the blank line that one failed assertion appends.\<close>

definition assert_record :: "string \<Rightarrow> string \<Rightarrow> int \<Rightarrow> string \<Rightarrow> string" where
  "assert_record conditionStr file line message =
     ''Assertion failed in file '' @ file @ '' at line: '' @ show_int line @ [newline]
     @ ''Condition: '' @ conditionStr @ [newline]
     @ ''Message: '' @ message @ [newline, newline]"

text \<open>
  \<^verbatim>\<open>static void Assert(bool condition, const char* conditionStr, const char* file,
  int line, const char* message)\<close>: the body runs when \<^verbatim>\<open>condition\<close> is true.
\<close>

definition Assert ::
  "bool \<Rightarrow> string \<Rightarrow> string \<Rightarrow> int \<Rightarrow> string \<Rightarrow> filesystem \<Rightarrow> filesystem outcome" where
  "Assert condition conditionStr file line message f =
     (if condition then
        Aborted
          (if AssertLog_opens f
           then f\<lparr>AssertLog_txt :=
                    AssertLog_txt f @ assert_record conditionStr file line message\<rparr>
           else f)
      else Returned f)"

text \<open>
  \<^verbatim>\<open>#define SE_Assert(cond, msg) Assert((cond), #cond, __FILE__, __LINE__, msg)\<close>.
  The stringified condition, the file and the line are fixed where the macro is
  expanded, so the model takes them as arguments.
\<close>

definition SE_Assert ::
  "bool \<Rightarrow> string \<Rightarrow> string \<Rightarrow> int \<Rightarrow> string \<Rightarrow> filesystem \<Rightarrow> filesystem outcome" where
  "SE_Assert cond cond_text file line msg f = Assert cond cond_text file line msg f"

section \<open>Render/2D/Renderer2D\<close>

text \<open>
  \<^verbatim>\<open>inline static int m_CurrentRenderIndex = 0;\<close> is the only state of the class. The
  process state seen by the renderer is that counter and the file system. The counter
  is a 32-bit word; the increment of \<^verbatim>\<open>BeginRender\<close> wraps in the model, and no state
  reached from the initial one comes near the largest value.
\<close>

record process =
  m_CurrentRenderIndex :: "32 word"
  files :: filesystem

definition initial :: "filesystem \<Rightarrow> process" where
  "initial f = \<lparr>m_CurrentRenderIndex = 0, files = f\<rparr>"

text \<open>
  \<^verbatim>\<open>__FILE__\<close> and \<^verbatim>\<open>__LINE__\<close> are fixed by the build. The model writes the name
  of the translation unit for the first and, for the second, the line of each
  \<^verbatim>\<open>SE_Assert\<close> in the source listing; no property below depends on either.
\<close>

definition Renderer2D_FILE :: string where
  "Renderer2D_FILE = ''Renderer2D.cpp''"

definition BeginRender :: "process \<Rightarrow> process outcome" where
  "BeginRender s =
     (case SE_Assert (m_CurrentRenderIndex s = 1) ''m_CurrentRenderIndex == 1''
             Renderer2D_FILE 44
             ''[Render 2D] Error: Has not called End Render function after the draw function''
             (files s) of
        Aborted f \<Rightarrow> Aborted (s\<lparr>files := f\<rparr>)
      | Returned f \<Rightarrow>
          Returned (s\<lparr>files := f, m_CurrentRenderIndex := m_CurrentRenderIndex s + 1\<rparr>))"

definition EndRender :: "process \<Rightarrow> process outcome" where
  "EndRender s = Returned (s\<lparr>m_CurrentRenderIndex := 0\<rparr>)"

definition DrawQuad :: "process \<Rightarrow> process outcome" where
  "DrawQuad s =
     (case SE_Assert (m_CurrentRenderIndex s = 0) ''m_CurrentRenderIndex == 0''
             Renderer2D_FILE 54
             ''[Render 2D] Error: Has not called either Begin Render function before draw function''
             (files s) of
        Aborted f \<Rightarrow> Aborted (s\<lparr>files := f\<rparr>)
      | Returned f \<Rightarrow> Returned (s\<lparr>files := f\<rparr>))"

text \<open>A client program, as far as the renderer sees it, is a sequence of calls.\<close>

datatype call = BeginRender_call | DrawQuad_call | EndRender_call

fun exec :: "call \<Rightarrow> process \<Rightarrow> process outcome" where
  "exec BeginRender_call s = BeginRender s"
| "exec DrawQuad_call s = DrawQuad s"
| "exec EndRender_call s = EndRender s"

text \<open>Nothing runs after \<^verbatim>\<open>std::abort()\<close>.\<close>

fun run :: "process \<Rightarrow> call list \<Rightarrow> process outcome" where
  "run s [] = Returned s"
| "run s (c # cs) =
     (case exec c s of Aborted s' \<Rightarrow> Aborted s' | Returned s' \<Rightarrow> run s' cs)"

section \<open>Windows.h\<close>

text \<open>
  The constants and macros below come from the platform header, which is not part of
  the repository; the values are those of the Windows SDK. The build is x64
  (\<^verbatim>\<open>architecture("x64")\<close>): \<^verbatim>\<open>UINT\<close> has 32 bits, \<^verbatim>\<open>WPARAM\<close> and \<^verbatim>\<open>LPARAM\<close> have 64.
  Values of the C++ type \<^verbatim>\<open>int\<close> that are only stored, compared and passed on are
  modelled by \<^typ>\<open>int\<close>.
\<close>

type_synonym UINT = "32 word"
type_synonym WPARAM = "64 word"
type_synonym LPARAM = "64 word"

definition WM_DESTROY :: UINT where
  "WM_DESTROY = 0x0002"

definition WM_SIZE :: UINT where
  "WM_SIZE = 0x0005"

definition WM_CLOSE :: UINT where
  "WM_CLOSE = 0x0010"

definition WM_KEYDOWN :: UINT where
  "WM_KEYDOWN = 0x0100"

definition WM_KEYUP :: UINT where
  "WM_KEYUP = 0x0101"

definition WM_CHAR :: UINT where
  "WM_CHAR = 0x0102"

definition WM_MOUSEMOVE :: UINT where
  "WM_MOUSEMOVE = 0x0200"

definition WM_LBUTTONDOWN :: UINT where
  "WM_LBUTTONDOWN = 0x0201"

definition WM_LBUTTONUP :: UINT where
  "WM_LBUTTONUP = 0x0202"

definition WM_RBUTTONDOWN :: UINT where
  "WM_RBUTTONDOWN = 0x0204"

definition WM_RBUTTONUP :: UINT where
  "WM_RBUTTONUP = 0x0205"

definition VK_LBUTTON :: int where
  "VK_LBUTTON = 0x01"

definition VK_RBUTTON :: int where
  "VK_RBUTTON = 0x02"

definition VK_BACK :: int where
  "VK_BACK = 0x08"

definition VK_TAB :: int where
  "VK_TAB = 0x09"

definition VK_RETURN :: int where
  "VK_RETURN = 0x0D"

definition VK_SHIFT :: int where
  "VK_SHIFT = 0x10"

definition VK_CONTROL :: int where
  "VK_CONTROL = 0x11"

definition VK_MENU :: int where
  "VK_MENU = 0x12"

definition VK_ESCAPE :: int where
  "VK_ESCAPE = 0x1B"

definition VK_SPACE :: int where
  "VK_SPACE = 0x20"

definition VK_LEFT :: int where
  "VK_LEFT = 0x25"

definition VK_UP :: int where
  "VK_UP = 0x26"

definition VK_RIGHT :: int where
  "VK_RIGHT = 0x27"

definition VK_DOWN :: int where
  "VK_DOWN = 0x28"

definition VK_F1 :: int where
  "VK_F1 = 0x70"

definition VK_F2 :: int where
  "VK_F2 = 0x71"

definition VK_F3 :: int where
  "VK_F3 = 0x72"

definition VK_F4 :: int where
  "VK_F4 = 0x73"

definition VK_F5 :: int where
  "VK_F5 = 0x74"

definition VK_F6 :: int where
  "VK_F6 = 0x75"

definition VK_F7 :: int where
  "VK_F7 = 0x76"

definition VK_F8 :: int where
  "VK_F8 = 0x77"

definition VK_F9 :: int where
  "VK_F9 = 0x78"

definition VK_F10 :: int where
  "VK_F10 = 0x79"

definition VK_F11 :: int where
  "VK_F11 = 0x7A"

definition VK_F12 :: int where
  "VK_F12 = 0x7B"

text \<open>
  \<^verbatim>\<open>LOWORD(l)\<close> is \<^verbatim>\<open>(WORD)(l & 0xffff)\<close> and \<^verbatim>\<open>HIWORD(l)\<close> is
  \<^verbatim>\<open>(WORD)((l >> 16) & 0xffff)\<close>; the source stores both in an \<^verbatim>\<open>int\<close>.
\<close>

definition LOWORD :: "LPARAM \<Rightarrow> int" where
  "LOWORD l = uint (ucast (l AND 0xFFFF) :: 16 word)"

definition HIWORD :: "LPARAM \<Rightarrow> int" where
  "HIWORD l = uint (ucast (drop_bit 16 l AND 0xFFFF) :: 16 word)"

text \<open>One entry of the thread's message queue, as far as \<^verbatim>\<open>WindowProc\<close> reads it.\<close>

record MSG =
  MSG_message :: UINT
  MSG_wParam :: WPARAM
  MSG_lParam :: LPARAM

text \<open>What a window procedure asks of the platform before it returns.\<close>

datatype platform_call = DefWindowProc_call | PostQuitMessage_call

text \<open>
  The answers of the platform to the creation requests of one window:
  whether \<^verbatim>\<open>CreateWindowEx\<close> returns a handle, whether the entry point
  \<^verbatim>\<open>wglCreateContextAttribsARB\<close> is found, and whether the context request returns a
  context.
\<close>

record platform =
  CreateWindowEx_ok :: bool
  wglCreateContextAttribsARB_found :: bool
  glContext_ok :: bool

section \<open>ThirdParty/swindow/Swindow.h\<close>

subsection \<open>Enumerations\<close>

text \<open>
  \<^verbatim>\<open>enum class KeyCode : uint8_t\<close> and \<^verbatim>\<open>enum class MouseButton\<close> (underlying type
  \<^verbatim>\<open>int\<close>): a value is its underlying integer, and \<^verbatim>\<open>static_cast\<close> from an integer
  is the constructor.
\<close>

datatype KeyCode = KeyCode (underlying: "8 word")

definition KeyCode_Unknown :: KeyCode where
  "KeyCode_Unknown = KeyCode 0"

definition KeyCode_A :: KeyCode where
  "KeyCode_A = KeyCode 1"

definition KeyCode_B :: KeyCode where
  "KeyCode_B = KeyCode 2"

definition KeyCode_C :: KeyCode where
  "KeyCode_C = KeyCode 3"

definition KeyCode_D :: KeyCode where
  "KeyCode_D = KeyCode 4"

definition KeyCode_E :: KeyCode where
  "KeyCode_E = KeyCode 5"

definition KeyCode_F :: KeyCode where
  "KeyCode_F = KeyCode 6"

definition KeyCode_G :: KeyCode where
  "KeyCode_G = KeyCode 7"

definition KeyCode_H :: KeyCode where
  "KeyCode_H = KeyCode 8"

definition KeyCode_I :: KeyCode where
  "KeyCode_I = KeyCode 9"

definition KeyCode_J :: KeyCode where
  "KeyCode_J = KeyCode 10"

definition KeyCode_K :: KeyCode where
  "KeyCode_K = KeyCode 11"

definition KeyCode_L :: KeyCode where
  "KeyCode_L = KeyCode 12"

definition KeyCode_M :: KeyCode where
  "KeyCode_M = KeyCode 13"

definition KeyCode_N :: KeyCode where
  "KeyCode_N = KeyCode 14"

definition KeyCode_O :: KeyCode where
  "KeyCode_O = KeyCode 15"

definition KeyCode_P :: KeyCode where
  "KeyCode_P = KeyCode 16"

definition KeyCode_Q :: KeyCode where
  "KeyCode_Q = KeyCode 17"

definition KeyCode_R :: KeyCode where
  "KeyCode_R = KeyCode 18"

definition KeyCode_S :: KeyCode where
  "KeyCode_S = KeyCode 19"

definition KeyCode_T :: KeyCode where
  "KeyCode_T = KeyCode 20"

definition KeyCode_U :: KeyCode where
  "KeyCode_U = KeyCode 21"

definition KeyCode_V :: KeyCode where
  "KeyCode_V = KeyCode 22"

definition KeyCode_W :: KeyCode where
  "KeyCode_W = KeyCode 23"

definition KeyCode_X :: KeyCode where
  "KeyCode_X = KeyCode 24"

definition KeyCode_Y :: KeyCode where
  "KeyCode_Y = KeyCode 25"

definition KeyCode_Z :: KeyCode where
  "KeyCode_Z = KeyCode 26"

definition KeyCode_Num0 :: KeyCode where
  "KeyCode_Num0 = KeyCode 27"

definition KeyCode_Num1 :: KeyCode where
  "KeyCode_Num1 = KeyCode 28"

definition KeyCode_Num2 :: KeyCode where
  "KeyCode_Num2 = KeyCode 29"

definition KeyCode_Num3 :: KeyCode where
  "KeyCode_Num3 = KeyCode 30"

definition KeyCode_Num4 :: KeyCode where
  "KeyCode_Num4 = KeyCode 31"

definition KeyCode_Num5 :: KeyCode where
  "KeyCode_Num5 = KeyCode 32"

definition KeyCode_Num6 :: KeyCode where
  "KeyCode_Num6 = KeyCode 33"

definition KeyCode_Num7 :: KeyCode where
  "KeyCode_Num7 = KeyCode 34"

definition KeyCode_Num8 :: KeyCode where
  "KeyCode_Num8 = KeyCode 35"

definition KeyCode_Num9 :: KeyCode where
  "KeyCode_Num9 = KeyCode 36"

definition KeyCode_Escape :: KeyCode where
  "KeyCode_Escape = KeyCode 37"

definition KeyCode_Enter :: KeyCode where
  "KeyCode_Enter = KeyCode 38"

definition KeyCode_Space :: KeyCode where
  "KeyCode_Space = KeyCode 39"

definition KeyCode_Backspace :: KeyCode where
  "KeyCode_Backspace = KeyCode 40"

definition KeyCode_Tab :: KeyCode where
  "KeyCode_Tab = KeyCode 41"

definition KeyCode_Shift :: KeyCode where
  "KeyCode_Shift = KeyCode 42"

definition KeyCode_Ctrl :: KeyCode where
  "KeyCode_Ctrl = KeyCode 43"

definition KeyCode_Alt :: KeyCode where
  "KeyCode_Alt = KeyCode 44"

definition KeyCode_Left :: KeyCode where
  "KeyCode_Left = KeyCode 45"

definition KeyCode_Right :: KeyCode where
  "KeyCode_Right = KeyCode 46"

definition KeyCode_Up :: KeyCode where
  "KeyCode_Up = KeyCode 47"

definition KeyCode_Down :: KeyCode where
  "KeyCode_Down = KeyCode 48"

definition KeyCode_F1 :: KeyCode where
  "KeyCode_F1 = KeyCode 49"

definition KeyCode_F2 :: KeyCode where
  "KeyCode_F2 = KeyCode 50"

definition KeyCode_F3 :: KeyCode where
  "KeyCode_F3 = KeyCode 51"

definition KeyCode_F4 :: KeyCode where
  "KeyCode_F4 = KeyCode 52"

definition KeyCode_F5 :: KeyCode where
  "KeyCode_F5 = KeyCode 53"

definition KeyCode_F6 :: KeyCode where
  "KeyCode_F6 = KeyCode 54"

definition KeyCode_F7 :: KeyCode where
  "KeyCode_F7 = KeyCode 55"

definition KeyCode_F8 :: KeyCode where
  "KeyCode_F8 = KeyCode 56"

definition KeyCode_F9 :: KeyCode where
  "KeyCode_F9 = KeyCode 57"

definition KeyCode_F10 :: KeyCode where
  "KeyCode_F10 = KeyCode 58"

definition KeyCode_F11 :: KeyCode where
  "KeyCode_F11 = KeyCode 59"

definition KeyCode_F12 :: KeyCode where
  "KeyCode_F12 = KeyCode 60"

definition KeyCode_Count :: KeyCode where
  "KeyCode_Count = KeyCode 61"

datatype MouseButton = MouseButton int

definition MouseButton_Unknown :: MouseButton where
  "MouseButton_Unknown = MouseButton 0"

definition LeftMouseButton :: MouseButton where
  "LeftMouseButton = MouseButton 1"

definition RightMouseButton :: MouseButton where
  "RightMouseButton = MouseButton 2"

subsection \<open>Window data\<close>

record WindowDescription =
  Title :: string
  Width :: int
  Height :: int

text \<open>
  A callback is client code held in a \<^verbatim>\<open>std::function\<close>; an empty one is \<open>None\<close>.
  The client's own data, of type \<open>'u\<close>, is what a callback reads and writes: it is
  modelled as a function on that data, and a callback that calls back into the window
  that invokes it is outside the model. A \<^verbatim>\<open>char\<close> is its byte.
\<close>

record 'u WindowCallbacks =
  WindowResizeCallback :: "(int \<Rightarrow> int \<Rightarrow> 'u \<Rightarrow> 'u) option"
  WindowCloseCallback :: "('u \<Rightarrow> bool \<times> 'u) option"
  WindowKeyCallback :: "(KeyCode \<Rightarrow> bool \<Rightarrow> 'u \<Rightarrow> 'u) option"
  WindowMouseCallback :: "(MouseButton \<Rightarrow> bool \<Rightarrow> 'u \<Rightarrow> 'u) option"
  WindowMouseMoveCallback :: "(int \<Rightarrow> int \<Rightarrow> 'u \<Rightarrow> 'u) option"
  WindowCharacterCallback :: "(8 word \<Rightarrow> 'u \<Rightarrow> 'u) option"

definition no_callbacks :: "'u WindowCallbacks" where
  "no_callbacks =
     \<lparr>WindowResizeCallback = None, WindowCloseCallback = None, WindowKeyCallback = None,
      WindowMouseCallback = None, WindowMouseMoveCallback = None,
      WindowCharacterCallback = None\<rparr>"

text \<open>
  \<^verbatim>\<open>Win32NativeWindow\<close>: of each handle only whether it is usable matters here. The
  titles of the error dialogs shown so far are kept with it.
\<close>

record Win32NativeWindow =
  m_WindowHandle :: bool
  m_DeviceContext :: bool
  m_OpenGLContext :: bool
  MessageBoxes :: "string list"

text \<open>
  \<^verbatim>\<open>Swindow::Window\<close>. The native window points back to its window and the window
  to its native window; the model keeps the native window inside the window.
\<close>

record 'u Window =
  m_WindowDescription :: WindowDescription
  m_WindowCallbacks :: "'u WindowCallbacks"
  m_NativeWindow :: Win32NativeWindow
  m_IsRunning :: bool

subsection \<open>Win32NativeWindow\<close>

definition Win32NativeWindow_new :: "platform \<Rightarrow> WindowDescription \<Rightarrow> Win32NativeWindow" where
  "Win32NativeWindow_new p description =
     (if \<not> CreateWindowEx_ok p
      then \<lparr>m_WindowHandle = False, m_DeviceContext = False, m_OpenGLContext = False,
            MessageBoxes = [''CreateWindowEx Failed'']\<rparr>
      else \<lparr>m_WindowHandle = True, m_DeviceContext = True, m_OpenGLContext = False,
            MessageBoxes = []\<rparr>)"

definition Win32NativeWindow_Destroy :: "Win32NativeWindow \<Rightarrow> Win32NativeWindow" where
  "Win32NativeWindow_Destroy n =
     n\<lparr>m_OpenGLContext := False, m_DeviceContext := False, m_WindowHandle := False\<rparr>"

definition Win32NativeWindow_CreateContext ::
  "platform \<Rightarrow> int \<Rightarrow> int \<Rightarrow> bool \<Rightarrow> Win32NativeWindow \<Rightarrow> Win32NativeWindow" where
  "Win32NativeWindow_CreateContext p major minor legacy n =
     (if \<not> wglCreateContextAttribsARB_found p
      then n\<lparr>MessageBoxes := MessageBoxes n @ [''Context Creation Failed'']\<rparr>
      else if \<not> glContext_ok p
      then n\<lparr>MessageBoxes := MessageBoxes n @ [''Error Creating Context'']\<rparr>
      else n\<lparr>m_OpenGLContext := True\<rparr>)"

text \<open>
  The two lookup tables, in the order of their initialiser lists. Construction of a
  \<^verbatim>\<open>std::unordered_map\<close> from a list keeps the first entry of a key, as \<^const>\<open>map_of\<close>
  does. A character literal is its code.
\<close>

definition ConvertNativeKeyCodes_keyMap :: "(int \<times> KeyCode) list" where
  "ConvertNativeKeyCodes_keyMap =
    [(of_char (CHR ''A''), KeyCode_A), (of_char (CHR ''B''), KeyCode_B), (of_char (CHR ''C''), KeyCode_C), (of_char (CHR ''D''), KeyCode_D),
     (of_char (CHR ''E''), KeyCode_E), (of_char (CHR ''F''), KeyCode_F), (of_char (CHR ''G''), KeyCode_G), (of_char (CHR ''H''), KeyCode_H),
     (of_char (CHR ''I''), KeyCode_I), (of_char (CHR ''J''), KeyCode_J), (of_char (CHR ''K''), KeyCode_K), (of_char (CHR ''L''), KeyCode_L),
     (of_char (CHR ''M''), KeyCode_M), (of_char (CHR ''N''), KeyCode_N), (of_char (CHR ''O''), KeyCode_O), (of_char (CHR ''P''), KeyCode_P),
     (of_char (CHR ''Q''), KeyCode_Q), (of_char (CHR ''R''), KeyCode_R), (of_char (CHR ''S''), KeyCode_S), (of_char (CHR ''T''), KeyCode_T),
     (of_char (CHR ''U''), KeyCode_U), (of_char (CHR ''V''), KeyCode_V), (of_char (CHR ''W''), KeyCode_W), (of_char (CHR ''X''), KeyCode_X),
     (of_char (CHR ''Y''), KeyCode_Y), (of_char (CHR ''Z''), KeyCode_Z),
     (VK_ESCAPE, KeyCode_Escape), (VK_RETURN, KeyCode_Enter),
     (VK_SPACE, KeyCode_Space), (VK_BACK, KeyCode_Backspace),
     (VK_TAB, KeyCode_Tab), (VK_SHIFT, KeyCode_Shift),
     (VK_CONTROL, KeyCode_Ctrl), (VK_MENU, KeyCode_Alt),
     (VK_LEFT, KeyCode_Left), (VK_RIGHT, KeyCode_Right),
     (VK_UP, KeyCode_Up), (VK_DOWN, KeyCode_Down),
     (VK_F1, KeyCode_F1), (VK_F2, KeyCode_F2), (VK_F3, KeyCode_F3),
     (VK_F4, KeyCode_F4), (VK_F5, KeyCode_F5), (VK_F6, KeyCode_F6),
     (VK_F7, KeyCode_F7), (VK_F8, KeyCode_F8), (VK_F9, KeyCode_F9),
     (VK_F10, KeyCode_F10), (VK_F11, KeyCode_F11), (VK_F12, KeyCode_F12)]"

definition GetNativeKeyCodes_keyMap :: "(KeyCode \<times> int) list" where
  "GetNativeKeyCodes_keyMap =
    [(KeyCode_A, of_char (CHR ''A'')), (KeyCode_B, of_char (CHR ''B'')), (KeyCode_C, of_char (CHR ''C'')), (KeyCode_D, of_char (CHR ''D'')),
     (KeyCode_E, of_char (CHR ''E'')), (KeyCode_F, of_char (CHR ''F'')), (KeyCode_G, of_char (CHR ''G'')), (KeyCode_H, of_char (CHR ''H'')),
     (KeyCode_I, of_char (CHR ''I'')), (KeyCode_J, of_char (CHR ''J'')), (KeyCode_K, of_char (CHR ''K'')), (KeyCode_L, of_char (CHR ''L'')),
     (KeyCode_M, of_char (CHR ''M'')), (KeyCode_N, of_char (CHR ''N'')), (KeyCode_O, of_char (CHR ''O'')), (KeyCode_P, of_char (CHR ''P'')),
     (KeyCode_Q, of_char (CHR ''Q'')), (KeyCode_R, of_char (CHR ''R'')), (KeyCode_S, of_char (CHR ''S'')), (KeyCode_T, of_char (CHR ''T'')),
     (KeyCode_U, of_char (CHR ''U'')), (KeyCode_V, of_char (CHR ''V'')), (KeyCode_W, of_char (CHR ''W'')), (KeyCode_X, of_char (CHR ''X'')),
     (KeyCode_Y, of_char (CHR ''Y'')), (KeyCode_Z, of_char (CHR ''Z'')),
     (KeyCode_Escape, VK_ESCAPE), (KeyCode_Enter, VK_RETURN),
     (KeyCode_Space, VK_SPACE), (KeyCode_Backspace, VK_BACK),
     (KeyCode_Tab, VK_TAB), (KeyCode_Shift, VK_SHIFT),
     (KeyCode_Ctrl, VK_CONTROL), (KeyCode_Alt, VK_MENU),
     (KeyCode_Left, VK_LEFT), (KeyCode_Right, VK_RIGHT),
     (KeyCode_Up, VK_UP), (KeyCode_Down, VK_DOWN),
     (KeyCode_F1, VK_F1), (KeyCode_F2, VK_F2), (KeyCode_F3, VK_F3),
     (KeyCode_F4, VK_F4), (KeyCode_F5, VK_F5), (KeyCode_F6, VK_F6),
     (KeyCode_F7, VK_F7), (KeyCode_F8, VK_F8), (KeyCode_F9, VK_F9),
     (KeyCode_F10, VK_F10), (KeyCode_F11, VK_F11), (KeyCode_F12, VK_F12)]"

definition ConvertNativeKeyCodes :: "int \<Rightarrow> KeyCode" where
  "ConvertNativeKeyCodes key =
     (case map_of ConvertNativeKeyCodes_keyMap key of
        Some code \<Rightarrow> code
      | None \<Rightarrow> KeyCode_Unknown)"

definition GetNativeKeyCodes :: "KeyCode \<Rightarrow> int" where
  "GetNativeKeyCodes code =
     (case map_of GetNativeKeyCodes_keyMap code of
        Some key \<Rightarrow> key
      | None \<Rightarrow> - 1)"

text \<open>
  \<^verbatim>\<open>IsKeyDown\<close> converts the \<^verbatim>\<open>SHORT\<close> that \<^verbatim>\<open>GetAsyncKeyState\<close> returns to
  \<^verbatim>\<open>bool\<close>. The key state is the platform's, given as a function of the native code.
\<close>

definition Win32NativeWindow_IsKeyDown :: "(int \<Rightarrow> 16 word) \<Rightarrow> KeyCode \<Rightarrow> bool" where
  "Win32NativeWindow_IsKeyDown GetAsyncKeyState code =
     (let nativeCode = GetNativeKeyCodes code in GetAsyncKeyState nativeCode \<noteq> 0)"

subsection \<open>Window\<close>

text \<open>
  \<^verbatim>\<open>Window::Create\<close>: the description is stored, the native window is constructed,
  the running flag is set. The callbacks of a new window are empty. The lines that
  \<^verbatim>\<open>Logger::Log\<close> prints on the console are left out of the model.
\<close>

definition Window_Create :: "platform \<Rightarrow> WindowDescription \<Rightarrow> 'u Window" where
  "Window_Create p description =
     \<lparr>m_WindowDescription = description,
      m_WindowCallbacks = no_callbacks,
      m_NativeWindow = Win32NativeWindow_new p description,
      m_IsRunning = True\<rparr>"

definition Window_Destroy :: "'u Window \<Rightarrow> 'u Window" where
  "Window_Destroy w = w\<lparr>m_NativeWindow := Win32NativeWindow_Destroy (m_NativeWindow w)\<rparr>"

definition Window_GetIsRunning :: "'u Window \<Rightarrow> bool" where
  "Window_GetIsRunning w = m_IsRunning w"

definition Window_SetIsRunning :: "bool \<Rightarrow> 'u Window \<Rightarrow> 'u Window" where
  "Window_SetIsRunning v w = w\<lparr>m_IsRunning := v\<rparr>"

definition Window_CreateContext :: "platform \<Rightarrow> int \<Rightarrow> int \<Rightarrow> bool \<Rightarrow> 'u Window \<Rightarrow> 'u Window" where
  "Window_CreateContext p major minor legacy w =
     w\<lparr>m_NativeWindow := Win32NativeWindow_CreateContext p major minor legacy (m_NativeWindow w)\<rparr>"

definition SetWindowResizeCallback :: "(int \<Rightarrow> int \<Rightarrow> 'u \<Rightarrow> 'u) option \<Rightarrow> 'u Window \<Rightarrow> 'u Window" where
  "SetWindowResizeCallback callback w =
     w\<lparr>m_WindowCallbacks := (m_WindowCallbacks w)\<lparr>WindowResizeCallback := callback\<rparr>\<rparr>"

definition SetWindowKeyCallback :: "(KeyCode \<Rightarrow> bool \<Rightarrow> 'u \<Rightarrow> 'u) option \<Rightarrow> 'u Window \<Rightarrow> 'u Window" where
  "SetWindowKeyCallback callback w =
     w\<lparr>m_WindowCallbacks := (m_WindowCallbacks w)\<lparr>WindowKeyCallback := callback\<rparr>\<rparr>"

definition SetWindowMouseCallback :: "(MouseButton \<Rightarrow> bool \<Rightarrow> 'u \<Rightarrow> 'u) option \<Rightarrow> 'u Window \<Rightarrow> 'u Window" where
  "SetWindowMouseCallback callback w =
     w\<lparr>m_WindowCallbacks := (m_WindowCallbacks w)\<lparr>WindowMouseCallback := callback\<rparr>\<rparr>"

definition SetWindowMouseMoveCallback :: "(int \<Rightarrow> int \<Rightarrow> 'u \<Rightarrow> 'u) option \<Rightarrow> 'u Window \<Rightarrow> 'u Window" where
  "SetWindowMouseMoveCallback callback w =
     w\<lparr>m_WindowCallbacks := (m_WindowCallbacks w)\<lparr>WindowMouseMoveCallback := callback\<rparr>\<rparr>"

definition SetWindowCharacterCallback :: "(8 word \<Rightarrow> 'u \<Rightarrow> 'u) option \<Rightarrow> 'u Window \<Rightarrow> 'u Window" where
  "SetWindowCharacterCallback callback w =
     w\<lparr>m_WindowCallbacks := (m_WindowCallbacks w)\<lparr>WindowCharacterCallback := callback\<rparr>\<rparr>"

definition SetWindowCloseCallback :: "('u \<Rightarrow> bool \<times> 'u) option \<Rightarrow> 'u Window \<Rightarrow> 'u Window" where
  "SetWindowCloseCallback callback w =
     w\<lparr>m_WindowCallbacks := (m_WindowCallbacks w)\<lparr>WindowCloseCallback := callback\<rparr>\<rparr>"

definition SetWindowSize :: "int \<Rightarrow> int \<Rightarrow> 'u Window \<Rightarrow> 'u Window" where
  "SetWindowSize width height w =
     w\<lparr>m_WindowDescription := (m_WindowDescription w)\<lparr>Width := width, Height := height\<rparr>\<rparr>"

definition Window_GetIsKeyDown :: "(int \<Rightarrow> 16 word) \<Rightarrow> KeyCode \<Rightarrow> 'u Window \<Rightarrow> bool" where
  "Window_GetIsKeyDown GetAsyncKeyState code w = Win32NativeWindow_IsKeyDown GetAsyncKeyState code"

definition GetWindowDescription :: "'u Window \<Rightarrow> WindowDescription" where
  "GetWindowDescription w = m_WindowDescription w"

definition GetWindowCallbacks :: "'u Window \<Rightarrow> 'u WindowCallbacks" where
  "GetWindowCallbacks w = m_WindowCallbacks w"

subsection \<open>WindowProc\<close>

text \<open>
  The \<^verbatim>\<open>switch\<close> of \<^verbatim>\<open>WindowProc\<close>, for the window \<open>w\<close> that the native window
  stored with the handle refers to and the client data \<open>u\<close>. The result is the window
  and the client data afterwards, and what is asked of the platform: every \<^verbatim>\<open>break\<close>
  and the \<^verbatim>\<open>default\<close> label end in \<^verbatim>\<open>DefWindowProc\<close>, \<^verbatim>\<open>WM_CLOSE\<close> and
  \<^verbatim>\<open>WM_DESTROY\<close> return 0.
\<close>

definition WindowProc_switch ::
  "'u Window \<Rightarrow> UINT \<Rightarrow> WPARAM \<Rightarrow> LPARAM \<Rightarrow> 'u \<Rightarrow> 'u Window \<times> 'u \<times> platform_call list" where
  "WindowProc_switch w uMsg wParam lParam u =
     (if uMsg = WM_CHAR then
        (case WindowCharacterCallback (GetWindowCallbacks w) of
           Some callback \<Rightarrow>
             (let character = (ucast wParam :: 8 word) in
              if character = 8
              then (w, callback 8 u, [DefWindowProc_call])
              else (w, callback character u, [DefWindowProc_call]))
         | None \<Rightarrow> (w, u, [DefWindowProc_call]))
      else if uMsg = WM_SIZE then
        (case WindowResizeCallback (GetWindowCallbacks w) of
           Some callback \<Rightarrow>
             (let width = LOWORD lParam;
                  height = HIWORD lParam;
                  w' = SetWindowSize width height w
              in (w', callback width height u, [DefWindowProc_call]))
         | None \<Rightarrow> (w, u, [DefWindowProc_call]))
      else if uMsg = WM_KEYDOWN \<or> uMsg = WM_KEYUP then
        (case WindowKeyCallback (GetWindowCallbacks w) of
           Some callback \<Rightarrow>
             (let key = ConvertNativeKeyCodes (sint (ucast wParam :: 32 word));
                  isPressed = (uMsg = WM_KEYDOWN)
              in (w, callback key isPressed u, [DefWindowProc_call]))
         | None \<Rightarrow> (w, u, [DefWindowProc_call]))
      else if uMsg = WM_LBUTTONDOWN \<or> uMsg = WM_LBUTTONUP then
        (case WindowMouseCallback (GetWindowCallbacks w) of
           Some callback \<Rightarrow>
             (let button = MouseButton VK_LBUTTON;
                  isPressed = (uMsg = WM_LBUTTONDOWN)
              in (w, callback button isPressed u, [DefWindowProc_call]))
         | None \<Rightarrow> (w, u, [DefWindowProc_call]))
      else if uMsg = WM_RBUTTONDOWN \<or> uMsg = WM_RBUTTONUP then
        (case WindowMouseCallback (GetWindowCallbacks w) of
           Some callback \<Rightarrow>
             (let button = MouseButton VK_RBUTTON;
                  isPressed = (uMsg = WM_LBUTTONDOWN)
              in (w, callback button isPressed u, [DefWindowProc_call]))
         | None \<Rightarrow> (w, u, [DefWindowProc_call]))
      else if uMsg = WM_MOUSEMOVE then
        (case WindowMouseMoveCallback (GetWindowCallbacks w) of
           Some callback \<Rightarrow>
             (let mouseX = LOWORD lParam;
                  mouseY = HIWORD lParam
              in (w, callback mouseX mouseY u, [DefWindowProc_call]))
         | None \<Rightarrow> (w, u, [DefWindowProc_call]))
      else if uMsg = WM_CLOSE then
        (case WindowCloseCallback (GetWindowCallbacks w) of
           Some callback \<Rightarrow>
             (case callback u of
                (close, u') \<Rightarrow>
                  if close then (Window_SetIsRunning False w, u', []) else (w, u', []))
         | None \<Rightarrow> (Window_SetIsRunning False w, u, []))
      else if uMsg = WM_DESTROY then (w, u, [PostQuitMessage_call])
      else (w, u, [DefWindowProc_call]))"

text \<open>
  \<^verbatim>\<open>WindowProc\<close> itself first reads the pointer stored with the handle and hands the
  message to \<^verbatim>\<open>DefWindowProc\<close> when there is none.
\<close>

definition WindowProc ::
  "'u Window option \<Rightarrow> UINT \<Rightarrow> WPARAM \<Rightarrow> LPARAM \<Rightarrow> 'u
     \<Rightarrow> 'u Window option \<times> 'u \<times> platform_call list" where
  "WindowProc windowPtr uMsg wParam lParam u =
     (case windowPtr of
        None \<Rightarrow> (None, u, [DefWindowProc_call])
      | Some w \<Rightarrow>
          (case WindowProc_switch w uMsg wParam lParam u of
             (w', u', calls) \<Rightarrow> (Some w', u', calls)))"

text \<open>
  \<^verbatim>\<open>PollEvents\<close> drains the queue: each message is dispatched to the window
  procedure. The constructor stores the pointer with the handle
  (\<^verbatim>\<open>SetWindowLongPtr\<close>) exactly when \<^verbatim>\<open>CreateWindowEx\<close> has returned one.
\<close>

definition GetWindowLongPtr_USERDATA :: "'u Window \<Rightarrow> 'u Window option" where
  "GetWindowLongPtr_USERDATA w = (if m_WindowHandle (m_NativeWindow w) then Some w else None)"

definition DispatchMessage :: "MSG \<Rightarrow> 'u Window \<times> 'u \<Rightarrow> 'u Window \<times> 'u" where
  "DispatchMessage msg wu =
     (case wu of (w, u) \<Rightarrow>
        (case WindowProc (GetWindowLongPtr_USERDATA w) (MSG_message msg) (MSG_wParam msg) (MSG_lParam msg) u of
           (Some w', u', calls) \<Rightarrow> (w', u')
         | (None, u', calls) \<Rightarrow> (w, u')))"

fun Win32NativeWindow_PollEvents :: "MSG list \<Rightarrow> 'u Window \<times> 'u \<Rightarrow> 'u Window \<times> 'u" where
  "Win32NativeWindow_PollEvents [] wu = wu"
| "Win32NativeWindow_PollEvents (msg # queue) wu =
     Win32NativeWindow_PollEvents queue (DispatchMessage msg wu)"

definition Window_PollEvents :: "MSG list \<Rightarrow> 'u Window \<times> 'u \<Rightarrow> 'u Window \<times> 'u" where
  "Window_PollEvents queue wu = Win32NativeWindow_PollEvents queue wu"

text \<open>\<^verbatim>\<open>SwapBuffers\<close> only presents the frame.\<close>

definition Window_SwapBuffers :: "'u Window \<Rightarrow> 'u Window" where
  "Window_SwapBuffers w = w"

section \<open>Sengine/Applicatiom/Window\<close>

text \<open>
  What stops a run of the model short of a result: a member call through a null
  \<^verbatim>\<open>shared_ptr\<close>, \<^verbatim>\<open>std::abort()\<close> inside client code, and the end of the input that
  the model was given while the tick loop still wants to go on.
\<close>

datatype fault = NullPointerDereference | ProcessAborted | InputExhausted

text \<open>
  \<^verbatim>\<open>Sengine::Window\<close> has one member, a \<^verbatim>\<open>shared_ptr\<close> to the \<^verbatim>\<open>Swindow::Window\<close>,
  null after default construction. (The field is \<^verbatim>\<open>m_NativeWindow\<close> in the source; the
  name is taken by the field of \<^verbatim>\<open>Swindow::Window\<close>.)
\<close>

record 'u Sengine_Window =
  Sengine_m_NativeWindow :: "'u Window option"

definition Sengine_Window_new :: "'u Sengine_Window" where
  "Sengine_Window_new = \<lparr>Sengine_m_NativeWindow = None\<rparr>"

text \<open>
  \<^verbatim>\<open>Window::Create\<close> is a member function: it fills \<^verbatim>\<open>m_NativeWindow\<close> of the object
  it is called on and returns a pointer to another, default-constructed window. The
  result is the object afterwards and the returned pointer, \<open>None\<close> being null.
\<close>

definition Sengine_Window_Create ::
  "platform \<Rightarrow> WindowDescription \<Rightarrow> 'u Sengine_Window
     \<Rightarrow> 'u Sengine_Window \<times> 'u Sengine_Window option" where
  "Sengine_Window_Create p description this =
     (let created = Window_Create p description;
          with_context = Window_CreateContext p 4 6 False created
      in (this\<lparr>Sengine_m_NativeWindow := Some with_context\<rparr>, Some Sengine_Window_new))"

definition Sengine_Window_Destroy :: "'u Sengine_Window \<Rightarrow> fault + 'u Sengine_Window" where
  "Sengine_Window_Destroy this =
     (case Sengine_m_NativeWindow this of
        None \<Rightarrow> Inl NullPointerDereference
      | Some n \<Rightarrow> Inr (this\<lparr>Sengine_m_NativeWindow := Some (Window_Destroy n)\<rparr>))"

definition Sengine_Window_GetIsRunning :: "'u Sengine_Window \<Rightarrow> fault + bool" where
  "Sengine_Window_GetIsRunning this =
     (case Sengine_m_NativeWindow this of
        None \<Rightarrow> Inl NullPointerDereference
      | Some n \<Rightarrow> Inr (Window_GetIsRunning n))"

definition Sengine_Window_SetIsRunning :: "bool \<Rightarrow> 'u Sengine_Window \<Rightarrow> fault + 'u Sengine_Window" where
  "Sengine_Window_SetIsRunning v this =
     (case Sengine_m_NativeWindow this of
        None \<Rightarrow> Inl NullPointerDereference
      | Some n \<Rightarrow> Inr (this\<lparr>Sengine_m_NativeWindow := Some (Window_SetIsRunning v n)\<rparr>))"

definition Sengine_Window_PollEvents ::
  "MSG list \<Rightarrow> 'u Sengine_Window \<times> 'u \<Rightarrow> fault + 'u Sengine_Window \<times> 'u" where
  "Sengine_Window_PollEvents queue thisu =
     (case thisu of (this, u) \<Rightarrow>
        (case Sengine_m_NativeWindow this of
           None \<Rightarrow> Inl NullPointerDereference
         | Some n \<Rightarrow>
             (case Window_PollEvents queue (n, u) of
                (n', u') \<Rightarrow> Inr (this\<lparr>Sengine_m_NativeWindow := Some n'\<rparr>, u'))))"

definition Sengine_Window_SwapBuffers :: "'u Sengine_Window \<Rightarrow> fault + 'u Sengine_Window" where
  "Sengine_Window_SwapBuffers this =
     (case Sengine_m_NativeWindow this of
        None \<Rightarrow> Inl NullPointerDereference
      | Some n \<Rightarrow> Inr (this\<lparr>Sengine_m_NativeWindow := Some (Window_SwapBuffers n)\<rparr>))"

definition Sengine_Window_GetIsKeyDown ::
  "(int \<Rightarrow> 16 word) \<Rightarrow> KeyCode \<Rightarrow> 'u Sengine_Window \<Rightarrow> fault + bool" where
  "Sengine_Window_GetIsKeyDown GetAsyncKeyState code this =
     (case Sengine_m_NativeWindow this of
        None \<Rightarrow> Inl NullPointerDereference
      | Some n \<Rightarrow> Inr (Window_GetIsKeyDown GetAsyncKeyState code n))"

section \<open>Sengine/Applicatiom/ISengineApp and Application\<close>

text \<open>
  The client application: its virtual functions act on the client object, of type
  \<open>'c\<close>. A hook either returns, with its result and the object afterwards, or ends
  the process.
\<close>

record 'c ISengineApp =
  App_GetWindowDescription :: "'c \<Rightarrow> WindowDescription"
  OnEarlyInit :: "'c \<Rightarrow> fault + bool \<times> 'c"
  OnInit :: "'c \<Rightarrow> fault + bool \<times> 'c"
  OnTick :: "'c \<Rightarrow> fault + 'c"
  OnDestroy :: "'c \<Rightarrow> fault + 'c"
  OnLateDestroy :: "'c \<Rightarrow> fault + 'c"

text \<open>
  The calls an \<^verbatim>\<open>Application\<close> makes on the client's hooks and to create and destroy
  its window are recorded in the auxiliary field \<open>lifecycle\<close>, each as soon as the call
  has returned; the code has no such field.
\<close>

datatype lifecycle_call =
    OnEarlyInit_call | Window_Create_call | OnInit_call | OnTick_call
  | OnDestroy_call | Window_Destroy_call | OnLateDestroy_call

record 'c Application =
  m_ClientApp :: 'c
  m_Window :: "'c Sengine_Window option"
  lifecycle :: "lifecycle_call list"

text \<open>
  What one iteration of the tick loop receives from the platform: the messages in
  the queue when \<^verbatim>\<open>PollEvents\<close> runs and the key state that \<^verbatim>\<open>GetAsyncKeyState\<close>
  reports.
\<close>

record frame =
  frame_queue :: "MSG list"
  frame_GetAsyncKeyState :: "int \<Rightarrow> 16 word"

definition Application_Init ::
  "platform \<Rightarrow> 'c ISengineApp \<Rightarrow> 'c Application \<Rightarrow> fault + bool \<times> 'c Application" where
  "Application_Init p app this =
     (case OnEarlyInit app (m_ClientApp this) of
        Inl e \<Rightarrow> Inl e
      | Inr (early, c1) \<Rightarrow>
          (let this1 = this\<lparr>m_ClientApp := c1, lifecycle := lifecycle this @ [OnEarlyInit_call]\<rparr>
           in if \<not> early then Inr (False, this1)
              else
                (case Sengine_Window_Create p (App_GetWindowDescription app c1) Sengine_Window_new of
                   (window, created) \<Rightarrow>
                     (let this2 = this1\<lparr>m_Window := Some window,
                                        lifecycle := lifecycle this1 @ [Window_Create_call]\<rparr>
                      in if created = None then Inr (False, this2)
                         else
                           (case OnInit app c1 of
                              Inl e \<Rightarrow> Inl e
                            | Inr (init, c2) \<Rightarrow>
                                (let this3 = this2\<lparr>m_ClientApp := c2,
                                                   lifecycle := lifecycle this2 @ [OnInit_call]\<rparr>
                                 in if \<not> init then Inr (False, this3)
                                    else Inr (True, this3)))))))"

text \<open>
  One pass through the body of the \<^verbatim>\<open>while\<close> loop of \<^verbatim>\<open>Tick\<close>, for a window
  that is running.
\<close>

definition Tick_body ::
  "'c ISengineApp \<Rightarrow> frame \<Rightarrow> 'c Sengine_Window \<Rightarrow> 'c Application \<Rightarrow> fault + 'c Application" where
  "Tick_body app f window this =
     (case Sengine_Window_PollEvents (frame_queue f) (window, m_ClientApp this) of
        Inl e \<Rightarrow> Inl e
      | Inr (w1, c1) \<Rightarrow>
          (case Sengine_Window_GetIsKeyDown (frame_GetAsyncKeyState f) KeyCode_Escape w1 of
             Inl e \<Rightarrow> Inl e
           | Inr down \<Rightarrow>
               (case (if down then Sengine_Window_SetIsRunning False w1 else Inr w1) of
                  Inl e \<Rightarrow> Inl e
                | Inr w2 \<Rightarrow>
                    (case OnTick app c1 of
                       Inl e \<Rightarrow> Inl e
                     | Inr c2 \<Rightarrow>
                         (let this1 = this\<lparr>m_ClientApp := c2,
                                           lifecycle := lifecycle this @ [OnTick_call]\<rparr>
                          in case Sengine_Window_SwapBuffers w2 of
                               Inl e \<Rightarrow> Inl e
                             | Inr w3 \<Rightarrow> Inr (this1\<lparr>m_Window := Some w3\<rparr>))))))"

text \<open>
  The loop of \<^verbatim>\<open>Tick\<close> may run for ever. It is run against the frames the
  platform delivers; when they have all been consumed and the window is still
  running, the model stops with \<^const>\<open>InputExhausted\<close>.
\<close>

fun Application_Tick ::
  "'c ISengineApp \<Rightarrow> frame list \<Rightarrow> 'c Application \<Rightarrow> fault + 'c Application" where
  "Application_Tick app fs this =
     (case m_Window this of
        None \<Rightarrow> Inl NullPointerDereference
      | Some window \<Rightarrow>
          (case Sengine_Window_GetIsRunning window of
             Inl e \<Rightarrow> Inl e
           | Inr running \<Rightarrow>
               if \<not> running then Inr this
               else
                 (case fs of
                    [] \<Rightarrow> Inl InputExhausted
                  | f # rest \<Rightarrow>
                      (case Tick_body app f window this of
                         Inl e \<Rightarrow> Inl e
                       | Inr this' \<Rightarrow> Application_Tick app rest this'))))"

declare Application_Tick.simps [simp del]

definition Application_Destroy :: "'c ISengineApp \<Rightarrow> 'c Application \<Rightarrow> fault + 'c Application" where
  "Application_Destroy app this =
     (case OnDestroy app (m_ClientApp this) of
        Inl e \<Rightarrow> Inl e
      | Inr c1 \<Rightarrow>
          (let this1 = this\<lparr>m_ClientApp := c1, lifecycle := lifecycle this @ [OnDestroy_call]\<rparr>
           in case m_Window this1 of
                None \<Rightarrow> Inl NullPointerDereference
              | Some window \<Rightarrow>
                  (case Sengine_Window_Destroy window of
                     Inl e \<Rightarrow> Inl e
                   | Inr window' \<Rightarrow>
                       (let this2 = this1\<lparr>m_Window := Some window',
                                          lifecycle := lifecycle this1 @ [Window_Destroy_call]\<rparr>
                        in case OnLateDestroy app (m_ClientApp this2) of
                             Inl e \<Rightarrow> Inl e
                           | Inr c2 \<Rightarrow>
                               Inr (this2\<lparr>m_ClientApp := c2,
                                          lifecycle := lifecycle this2 @ [OnLateDestroy_call]\<rparr>)))))"

text \<open>
  \<^verbatim>\<open>CreateApplication(app)\<close>: \<open>app\<close> gives the virtual functions of the client and
  \<open>c\<close> the client object that the argument points to.
\<close>

definition CreateApplication ::
  "platform \<Rightarrow> 'c ISengineApp \<Rightarrow> frame list \<Rightarrow> 'c \<Rightarrow> 'c Application \<Rightarrow> fault + 'c Application" where
  "CreateApplication p app fs c this =
     (case Application_Init p app (this\<lparr>m_ClientApp := c\<rparr>) of
        Inl e \<Rightarrow> Inl e
      | Inr (ok, this1) \<Rightarrow>
          if \<not> ok then Inr this1
          else
            (case Application_Tick app fs this1 of
               Inl e \<Rightarrow> Inl e
             | Inr this2 \<Rightarrow> Application_Destroy app this2))"

section \<open>Editor/src/Main.cpp\<close>

text \<open>
  The editor is the client of the repository. Its object holds the window
  description; the state of the process that its hooks reach through the renderer is
  carried with it. The OpenGL calls of \<^verbatim>\<open>OnTick\<close> draw and are left out.
\<close>

record Editor =
  Editor_m_WindowDescription :: WindowDescription
  globals :: process

definition Editor_OnEarlyInit :: "Editor \<Rightarrow> fault + bool \<times> Editor" where
  "Editor_OnEarlyInit e =
     Inr (True, e\<lparr>Editor_m_WindowDescription :=
                     (Editor_m_WindowDescription e)
                        \<lparr>Title := ''Editor'', Width := 1270, Height := 720\<rparr>\<rparr>)"

definition Editor_OnInit :: "Editor \<Rightarrow> fault + bool \<times> Editor" where
  "Editor_OnInit e = Inr (True, e)"

text \<open>
  \<^verbatim>\<open>Renderer::BeginRender2D\<close>, \<^verbatim>\<open>Renderer::Draw2D\<close> and \<^verbatim>\<open>Renderer::EndRender2D\<close>
  forward to \<^verbatim>\<open>Renderer2D\<close>.
\<close>

definition Editor_OnTick :: "Editor \<Rightarrow> fault + Editor" where
  "Editor_OnTick e =
     (case BeginRender (globals e) of
        Aborted g \<Rightarrow> Inl ProcessAborted
      | Returned g1 \<Rightarrow>
          (case DrawQuad g1 of
             Aborted g \<Rightarrow> Inl ProcessAborted
           | Returned g2 \<Rightarrow>
               (case EndRender g2 of
                  Aborted g \<Rightarrow> Inl ProcessAborted
                | Returned g3 \<Rightarrow> Inr (e\<lparr>globals := g3\<rparr>))))"

definition Editor_OnDestroy :: "Editor \<Rightarrow> fault + Editor" where
  "Editor_OnDestroy e = Inr e"

definition Editor_OnLateDestroy :: "Editor \<Rightarrow> fault + Editor" where
  "Editor_OnLateDestroy e = Inr e"

definition Editor_app :: "Editor ISengineApp" where
  "Editor_app =
     \<lparr>App_GetWindowDescription = Editor_m_WindowDescription,
      OnEarlyInit = Editor_OnEarlyInit,
      OnInit = Editor_OnInit,
      OnTick = Editor_OnTick,
      OnDestroy = Editor_OnDestroy,
      OnLateDestroy = Editor_OnLateDestroy\<rparr>"

section \<open>Example inputs\<close>

text \<open>A platform on which every creation request succeeds, and one on which none does.\<close>

definition platform_ok :: platform where
  "platform_ok =
     \<lparr>CreateWindowEx_ok = True, wglCreateContextAttribsARB_found = True, glContext_ok = True\<rparr>"

definition platform_failing :: platform where
  "platform_failing =
     \<lparr>CreateWindowEx_ok = False, wglCreateContextAttribsARB_found = False, glContext_ok = False\<rparr>"

definition Test_description :: WindowDescription where
  "Test_description = \<lparr>Title = ''Test'', Width = 800, Height = 600\<rparr>"

text \<open>A resize to 1024 by 768, a close request, and a frame that delivers the latter.\<close>

definition resize_1024_768 :: MSG where
  "resize_1024_768 = \<lparr>MSG_message = WM_SIZE, MSG_wParam = 0, MSG_lParam = 0x03000400\<rparr>"

definition close_request_msg :: MSG where
  "close_request_msg = \<lparr>MSG_message = WM_CLOSE, MSG_wParam = 0, MSG_lParam = 0\<rparr>"

definition closing_frame :: frame where
  "closing_frame = \<lparr>frame_queue = [close_request_msg], frame_GetAsyncKeyState = (\<lambda>key. 0)\<rparr>"

text \<open>
  The editor object and the application object as \<^verbatim>\<open>main\<close> constructs them. The
  width and height of a new editor are not initialised; \<^verbatim>\<open>OnEarlyInit\<close> sets them.
\<close>

definition Editor_new :: Editor where
  "Editor_new =
     \<lparr>Editor_m_WindowDescription = \<lparr>Title = '''', Width = 0, Height = 0\<rparr>,
      globals = initial \<lparr>AssertLog_opens = True, AssertLog_txt = ''''\<rparr>\<rparr>"

definition Application_new :: "'c \<Rightarrow> 'c Application" where
  "Application_new c = \<lparr>m_ClientApp = c, m_Window = None, lifecycle = []\<rparr>"

section \<open>Unfolding rules\<close>

lemmas WM_defs =
  WM_DESTROY_def WM_SIZE_def WM_CLOSE_def WM_KEYDOWN_def WM_KEYUP_def WM_CHAR_def
  WM_MOUSEMOVE_def WM_LBUTTONDOWN_def WM_LBUTTONUP_def WM_RBUTTONDOWN_def WM_RBUTTONUP_def

lemmas VK_defs =
  VK_LBUTTON_def VK_RBUTTON_def VK_BACK_def VK_TAB_def VK_RETURN_def VK_SHIFT_def VK_CONTROL_def VK_MENU_def VK_ESCAPE_def
  VK_SPACE_def VK_LEFT_def VK_UP_def VK_RIGHT_def VK_DOWN_def VK_F1_def VK_F2_def VK_F3_def VK_F4_def
  VK_F5_def VK_F6_def VK_F7_def VK_F8_def VK_F9_def VK_F10_def VK_F11_def VK_F12_def

lemmas KeyCode_defs =
  KeyCode_Unknown_def KeyCode_A_def KeyCode_B_def KeyCode_C_def KeyCode_D_def
  KeyCode_E_def KeyCode_F_def KeyCode_G_def KeyCode_H_def KeyCode_I_def
  KeyCode_J_def KeyCode_K_def KeyCode_L_def KeyCode_M_def KeyCode_N_def
  KeyCode_O_def KeyCode_P_def KeyCode_Q_def KeyCode_R_def KeyCode_S_def
  KeyCode_T_def KeyCode_U_def KeyCode_V_def KeyCode_W_def KeyCode_X_def
  KeyCode_Y_def KeyCode_Z_def KeyCode_Num0_def KeyCode_Num1_def KeyCode_Num2_def
  KeyCode_Num3_def KeyCode_Num4_def KeyCode_Num5_def KeyCode_Num6_def KeyCode_Num7_def
  KeyCode_Num8_def KeyCode_Num9_def KeyCode_Escape_def KeyCode_Enter_def KeyCode_Space_def
  KeyCode_Backspace_def KeyCode_Tab_def KeyCode_Shift_def KeyCode_Ctrl_def KeyCode_Alt_def
  KeyCode_Left_def KeyCode_Right_def KeyCode_Up_def KeyCode_Down_def KeyCode_F1_def
  KeyCode_F2_def KeyCode_F3_def KeyCode_F4_def KeyCode_F5_def KeyCode_F6_def
  KeyCode_F7_def KeyCode_F8_def KeyCode_F9_def KeyCode_F10_def KeyCode_F11_def
  KeyCode_F12_def KeyCode_Count_def

lemmas keyMap_defs = ConvertNativeKeyCodes_keyMap_def GetNativeKeyCodes_keyMap_def

lemmas example_defs =
  platform_ok_def platform_failing_def Test_description_def resize_1024_768_def
  close_request_msg_def closing_frame_def Editor_new_def Application_new_def

lemmas Window_defs =
  Window_Create_def Window_Destroy_def Window_GetIsRunning_def Window_SetIsRunning_def
  Window_CreateContext_def SetWindowResizeCallback_def SetWindowKeyCallback_def
  SetWindowMouseCallback_def SetWindowMouseMoveCallback_def SetWindowCharacterCallback_def
  SetWindowCloseCallback_def SetWindowSize_def Window_GetIsKeyDown_def GetWindowDescription_def
  GetWindowCallbacks_def no_callbacks_def Win32NativeWindow_new_def
  Win32NativeWindow_Destroy_def Win32NativeWindow_CreateContext_def
  Win32NativeWindow_IsKeyDown_def Window_PollEvents_def Window_SwapBuffers_def
  DispatchMessage_def GetWindowLongPtr_USERDATA_def

lemmas Sengine_Window_defs =
  Sengine_Window_new_def Sengine_Window_Create_def Sengine_Window_Destroy_def
  Sengine_Window_GetIsRunning_def Sengine_Window_SetIsRunning_def
  Sengine_Window_PollEvents_def Sengine_Window_SwapBuffers_def Sengine_Window_GetIsKeyDown_def

lemmas Editor_defs =
  Editor_app_def Editor_OnEarlyInit_def Editor_OnInit_def Editor_OnTick_def
  Editor_OnDestroy_def Editor_OnLateDestroy_def

section \<open>Properties of the assertion helper\<close>

text \<open>
  C9, as stated, fails. The claim has every abort of \<^verbatim>\<open>Assertion::Assert\<close> come after
  the record was appended to \<^verbatim>\<open>AssertLog.txt\<close>. When the stream does not open, a call
  with a true condition aborts and the file is as it was, although the record to append
  is not empty.
\<close>

theorem Assert_abort_without_append_counterexample:
  "Assert True ''x == 1'' ''a.cpp'' 7 ''m'' \<lparr>AssertLog_opens = False, AssertLog_txt = ''''\<rparr>
     = Aborted \<lparr>AssertLog_opens = False, AssertLog_txt = ''''\<rparr>
   \<and> SE_Assert True ''x == 1'' ''a.cpp'' 7 ''m'' \<lparr>AssertLog_opens = False, AssertLog_txt = ''''\<rparr>
     = Aborted \<lparr>AssertLog_opens = False, AssertLog_txt = ''''\<rparr>
   \<and> assert_record ''x == 1'' ''a.cpp'' 7 ''m'' \<noteq> ''''"
  by (simp add: Assert_def SE_Assert_def assert_record_def)

text \<open>
  C9, amended. \<^verbatim>\<open>Assertion::Assert\<close> aborts exactly when its condition argument is
  true, the inverse of the conventional polarity, and so does \<^verbatim>\<open>SE_Assert\<close>. On the
  aborting path the record made of file, line, condition text and message is appended
  to \<^verbatim>\<open>AssertLog.txt\<close> before the abort when the stream has opened, and nothing is
  written when it has not. When the condition is false the call returns and the file
  system is as before.
\<close>

theorem Assert_aborts_iff_condition:
  "(aborted (Assert c cs file line msg f) \<longleftrightarrow> c)
   \<and> (aborted (SE_Assert c cs file line msg f) \<longleftrightarrow> c)
   \<and> (c \<and> AssertLog_opens f \<longrightarrow>
        Assert c cs file line msg f =
          Aborted (f\<lparr>AssertLog_txt := AssertLog_txt f @ assert_record cs file line msg\<rparr>))
   \<and> (c \<and> \<not> AssertLog_opens f \<longrightarrow> Assert c cs file line msg f = Aborted f)
   \<and> (\<not> c \<longrightarrow> Assert c cs file line msg f = Returned f)"
  by (simp add: Assert_def SE_Assert_def)

theorem Assert_aborts_iff_condition_witness:
  "aborted (Assert True ''x == 1'' ''a.cpp'' 7 ''m''
              \<lparr>AssertLog_opens = True, AssertLog_txt = ''''\<rparr>)
   \<and> Assert True ''x == 1'' ''a.cpp'' 7 ''m'' \<lparr>AssertLog_opens = True, AssertLog_txt = ''''\<rparr>
     = Aborted \<lparr>AssertLog_opens = True, AssertLog_txt =
         ''Assertion failed in file a.cpp at line: 7'' @ [newline]
         @ ''Condition: x == 1'' @ [newline] @ ''Message: m'' @ [newline, newline]\<rparr>
   \<and> Assert True ''x == 1'' ''a.cpp'' 7 ''m'' \<lparr>AssertLog_opens = False, AssertLog_txt = ''''\<rparr>
     = Aborted \<lparr>AssertLog_opens = False, AssertLog_txt = ''''\<rparr>
   \<and> Assert False ''x == 1'' ''a.cpp'' 7 ''m'' \<lparr>AssertLog_opens = True, AssertLog_txt = ''''\<rparr>
     = Returned \<lparr>AssertLog_opens = True, AssertLog_txt = ''''\<rparr>"
  using Assert_aborts_iff_condition [of True "''x == 1''" "''a.cpp''" 7 "''m''"
          "\<lparr>AssertLog_opens = True, AssertLog_txt = ''''\<rparr>"]
        Assert_aborts_iff_condition [of True "''x == 1''" "''a.cpp''" 7 "''m''"
          "\<lparr>AssertLog_opens = False, AssertLog_txt = ''''\<rparr>"]
        Assert_aborts_iff_condition [of False "''x == 1''" "''a.cpp''" 7 "''m''"
          "\<lparr>AssertLog_opens = True, AssertLog_txt = ''''\<rparr>"]
  by (simp add: assert_record_def show_int_def show_nat.simps)

section \<open>Properties of the render pass guard\<close>

lemma BeginRender_cases:
  "BeginRender s =
     (if m_CurrentRenderIndex s = 1
      then Aborted (s\<lparr>files := final (Assert True ''m_CurrentRenderIndex == 1'' Renderer2D_FILE 44
             ''[Render 2D] Error: Has not called End Render function after the draw function'' (files s))\<rparr>)
      else Returned (s\<lparr>m_CurrentRenderIndex := m_CurrentRenderIndex s + 1\<rparr>))"
  by (simp add: BeginRender_def SE_Assert_def Assert_def)

lemma DrawQuad_cases:
  "DrawQuad s =
     (if m_CurrentRenderIndex s = 0
      then Aborted (s\<lparr>files := final (Assert True ''m_CurrentRenderIndex == 0'' Renderer2D_FILE 54
             ''[Render 2D] Error: Has not called either Begin Render function before draw function'' (files s))\<rparr>)
      else Returned s)"
  by (simp add: DrawQuad_def SE_Assert_def Assert_def)

lemma run_append:
  "run s (xs @ ys) = (case run s xs of Aborted s' \<Rightarrow> Aborted s' | Returned s' \<Rightarrow> run s' ys)"
  by (induction xs arbitrary: s) (auto split: outcome.splits)

lemma bracket_returns:
  "m_CurrentRenderIndex s = 0 \<Longrightarrow>
   run s [BeginRender_call, DrawQuad_call, EndRender_call] = Returned s"
  by (simp add: BeginRender_cases DrawQuad_cases EndRender_def)

lemma brackets_return:
  "m_CurrentRenderIndex s = 0 \<Longrightarrow>
   run s (concat (replicate n [BeginRender_call, DrawQuad_call, EndRender_call])) = Returned s"
proof (induction n)
  case 0
  then show ?case by simp
next
  case (Suc n)
  have "run s (concat (replicate (Suc n) [BeginRender_call, DrawQuad_call, EndRender_call]))
        = run s ([BeginRender_call, DrawQuad_call, EndRender_call]
                 @ concat (replicate n [BeginRender_call, DrawQuad_call, EndRender_call]))"
    by simp
  also have "\<dots> = run s (concat (replicate n [BeginRender_call, DrawQuad_call, EndRender_call]))"
    using Suc.prems by (simp only: run_append bracket_returns outcome.case)
  finally show ?case using Suc by simp
qed

lemma counter_tracks_calls:
  "run (initial f) cs = Returned s \<Longrightarrow>
   m_CurrentRenderIndex s =
     (if BeginRender_call \<in> set (takeWhile (\<lambda>c. c \<noteq> EndRender_call) (rev cs)) then 1 else 0)"
proof (induction cs arbitrary: s rule: rev_induct)
  case Nil
  then show ?case by (auto simp: initial_def)
next
  case (snoc c cs)
  from snoc.prems obtain t where t: "run (initial f) cs = Returned t" and c: "exec c t = Returned s"
    by (auto simp: run_append split: outcome.splits)
  note ih = snoc.IH [OF t]
  show ?case
  proof (cases c)
    case BeginRender_call
    with c ih show ?thesis by (auto simp: BeginRender_cases split: if_splits)
  next
    case DrawQuad_call
    with c ih show ?thesis by (auto simp: DrawQuad_cases split: if_splits)
  next
    case EndRender_call
    with c show ?thesis by (auto simp: EndRender_def)
  qed
qed

text \<open>
  C1. Starting from the initial guard state, any number of BeginRender, DrawQuad,
  EndRender brackets in that order runs to the end without an abort (and leaves the
  process in its initial state); and in any sequence of calls, a DrawQuad that has no
  BeginRender among the calls since the last EndRender (or since the start) aborts the
  process, whatever calls were meant to follow it.
\<close>

theorem render_pass_order:
  "run (initial f) (concat (replicate n [BeginRender_call, DrawQuad_call, EndRender_call]))
     = Returned (initial f)
   \<and> (BeginRender_call \<notin> set (takeWhile (\<lambda>c. c \<noteq> EndRender_call) (rev pre))
        \<longrightarrow> aborted (run (initial f) (pre @ DrawQuad_call # post)))"
proof
  show "run (initial f) (concat (replicate n [BeginRender_call, DrawQuad_call, EndRender_call]))
     = Returned (initial f)"
    by (rule brackets_return) (simp add: initial_def)
next
  show "BeginRender_call \<notin> set (takeWhile (\<lambda>c. c \<noteq> EndRender_call) (rev pre))
        \<longrightarrow> aborted (run (initial f) (pre @ DrawQuad_call # post))"
  proof
    assume no_begin: "BeginRender_call \<notin> set (takeWhile (\<lambda>c. c \<noteq> EndRender_call) (rev pre))"
    show "aborted (run (initial f) (pre @ DrawQuad_call # post))"
    proof (cases "run (initial f) pre")
      case (Aborted t)
      then show ?thesis by (simp add: run_append)
    next
      case (Returned t)
      with no_begin have "m_CurrentRenderIndex t = 0"
        by (simp add: counter_tracks_calls)
      with Returned show ?thesis by (simp add: run_append DrawQuad_cases)
    qed
  qed
qed

theorem render_pass_order_witness:
  "run (initial \<lparr>AssertLog_opens = True, AssertLog_txt = ''''\<rparr>)
       [BeginRender_call, DrawQuad_call, EndRender_call, BeginRender_call, DrawQuad_call, EndRender_call]
     = Returned (initial \<lparr>AssertLog_opens = True, AssertLog_txt = ''''\<rparr>)
   \<and> BeginRender_call \<notin> set (takeWhile (\<lambda>c. c \<noteq> EndRender_call)
         (rev [BeginRender_call, DrawQuad_call, EndRender_call, DrawQuad_call]))
   \<and> aborted (run (initial \<lparr>AssertLog_opens = True, AssertLog_txt = ''''\<rparr>)
         ([BeginRender_call, DrawQuad_call, EndRender_call, DrawQuad_call] @ DrawQuad_call # [EndRender_call]))"
  using render_pass_order [of "\<lparr>AssertLog_opens = True, AssertLog_txt = ''''\<rparr>" 2
          "[BeginRender_call, DrawQuad_call, EndRender_call, DrawQuad_call]" "[EndRender_call]"]
  by (simp add: numeral_2_eq_2)

text \<open>
  C6. In every state reached from the initial state by calls that did not abort, the
  counter \<^verbatim>\<open>m_CurrentRenderIndex\<close> is 0 or 1. BeginRender aborts, leaving the counter
  at 1, when the counter is 1, and otherwise increments it; DrawQuad never changes it;
  EndRender returns from every state with the counter reset to 0.
\<close>

theorem render_counter_invariant:
  "(run (initial f) cs = Returned s \<longrightarrow> m_CurrentRenderIndex s = 0 \<or> m_CurrentRenderIndex s = 1)
   \<and> (m_CurrentRenderIndex t = 1 \<longrightarrow>
        aborted (BeginRender t) \<and> m_CurrentRenderIndex (final (BeginRender t)) = 1)
   \<and> (m_CurrentRenderIndex t \<noteq> 1 \<longrightarrow>
        BeginRender t = Returned (t\<lparr>m_CurrentRenderIndex := m_CurrentRenderIndex t + 1\<rparr>))
   \<and> m_CurrentRenderIndex (final (DrawQuad t)) = m_CurrentRenderIndex t
   \<and> EndRender t = Returned (t\<lparr>m_CurrentRenderIndex := 0\<rparr>)"
  by (simp add: counter_tracks_calls BeginRender_cases DrawQuad_cases EndRender_def)

theorem render_counter_invariant_witness:
  "run (initial \<lparr>AssertLog_opens = True, AssertLog_txt = ''''\<rparr>) [BeginRender_call, DrawQuad_call]
     = Returned \<lparr>m_CurrentRenderIndex = 1, files = \<lparr>AssertLog_opens = True, AssertLog_txt = ''''\<rparr>\<rparr>
   \<and> aborted (BeginRender \<lparr>m_CurrentRenderIndex = 1, files = \<lparr>AssertLog_opens = True, AssertLog_txt = ''''\<rparr>\<rparr>)
   \<and> BeginRender \<lparr>m_CurrentRenderIndex = 0, files = \<lparr>AssertLog_opens = True, AssertLog_txt = ''''\<rparr>\<rparr>
       = Returned \<lparr>m_CurrentRenderIndex = 1, files = \<lparr>AssertLog_opens = True, AssertLog_txt = ''''\<rparr>\<rparr>
   \<and> EndRender \<lparr>m_CurrentRenderIndex = 1, files = \<lparr>AssertLog_opens = True, AssertLog_txt = ''''\<rparr>\<rparr>
       = Returned \<lparr>m_CurrentRenderIndex = 0, files = \<lparr>AssertLog_opens = True, AssertLog_txt = ''''\<rparr>\<rparr>"
  using render_counter_invariant [of "\<lparr>AssertLog_opens = True, AssertLog_txt = ''''\<rparr>"
          "[BeginRender_call, DrawQuad_call]"
          "\<lparr>m_CurrentRenderIndex = 1, files = \<lparr>AssertLog_opens = True, AssertLog_txt = ''''\<rparr>\<rparr>"
          "\<lparr>m_CurrentRenderIndex = 1, files = \<lparr>AssertLog_opens = True, AssertLog_txt = ''''\<rparr>\<rparr>"]
        render_counter_invariant [of "\<lparr>AssertLog_opens = True, AssertLog_txt = ''''\<rparr>"
          "[]"
          "\<lparr>m_CurrentRenderIndex = 0, files = \<lparr>AssertLog_opens = True, AssertLog_txt = ''''\<rparr>\<rparr>"
          "\<lparr>m_CurrentRenderIndex = 0, files = \<lparr>AssertLog_opens = True, AssertLog_txt = ''''\<rparr>\<rparr>"]
  by (simp add: initial_def BeginRender_cases DrawQuad_cases EndRender_def)

section \<open>Properties of the key code tables\<close>

lemma Convert_then_Get:
  "key \<in> fst ` set ConvertNativeKeyCodes_keyMap \<Longrightarrow>
   GetNativeKeyCodes (ConvertNativeKeyCodes key) = key"
  unfolding keyMap_defs ConvertNativeKeyCodes_def GetNativeKeyCodes_def VK_defs KeyCode_defs
  by auto

lemma Convert_unmapped:
  "key \<notin> fst ` set ConvertNativeKeyCodes_keyMap \<Longrightarrow> ConvertNativeKeyCodes key = KeyCode_Unknown"
  by (simp add: ConvertNativeKeyCodes_def map_of_eq_None_iff [THEN iffD2])

lemma Get_unmapped:
  "code \<notin> fst ` set GetNativeKeyCodes_keyMap \<Longrightarrow> GetNativeKeyCodes code = - 1"
  by (simp add: GetNativeKeyCodes_def map_of_eq_None_iff [THEN iffD2])

text \<open>
  C7. For every native key code that is a key of the table of
  \<^verbatim>\<open>ConvertNativeKeyCodes\<close>, converting it and converting the result back with
  \<^verbatim>\<open>GetNativeKeyCodes\<close> gives the same code; a native code that is not a key of that
  table converts to \<^verbatim>\<open>KeyCode::Unknown\<close>; and \<^verbatim>\<open>GetNativeKeyCodes\<close> returns -1 for
  every \<^verbatim>\<open>KeyCode\<close> that is not a key of the reverse table.
\<close>

theorem key_code_round_trip:
  "(key \<in> fst ` set ConvertNativeKeyCodes_keyMap \<longrightarrow>
      GetNativeKeyCodes (ConvertNativeKeyCodes key) = key)
   \<and> (key \<notin> fst ` set ConvertNativeKeyCodes_keyMap \<longrightarrow>
      ConvertNativeKeyCodes key = KeyCode_Unknown)
   \<and> (code \<notin> fst ` set GetNativeKeyCodes_keyMap \<longrightarrow> GetNativeKeyCodes code = - 1)"
  by (simp add: Convert_then_Get Convert_unmapped Get_unmapped)

theorem key_code_round_trip_witness:
  "VK_ESCAPE \<in> fst ` set ConvertNativeKeyCodes_keyMap
   \<and> GetNativeKeyCodes (ConvertNativeKeyCodes VK_ESCAPE) = VK_ESCAPE
   \<and> 48 \<notin> fst ` set ConvertNativeKeyCodes_keyMap
   \<and> ConvertNativeKeyCodes 48 = KeyCode_Unknown
   \<and> KeyCode_Num0 \<notin> fst ` set GetNativeKeyCodes_keyMap
   \<and> GetNativeKeyCodes KeyCode_Num0 = - 1"
proof -
  have a: "VK_ESCAPE \<in> fst ` set ConvertNativeKeyCodes_keyMap"
    by (simp add: ConvertNativeKeyCodes_keyMap_def)
  have b: "48 \<notin> fst ` set ConvertNativeKeyCodes_keyMap"
    by (simp add: ConvertNativeKeyCodes_keyMap_def VK_defs)
  have c: "KeyCode_Num0 \<notin> fst ` set GetNativeKeyCodes_keyMap"
    by (simp add: GetNativeKeyCodes_keyMap_def KeyCode_defs)
  from a b c key_code_round_trip [of VK_ESCAPE KeyCode_Num0] key_code_round_trip [of 48 KeyCode_Num0]
  show ?thesis by simp
qed

section \<open>Properties of the window procedure\<close>

lemma and_FFFF: "(l :: 64 word) AND 0xFFFF = take_bit 16 l"
proof -
  have "(0xFFFF :: 64 word) = mask 16" by (simp add: mask_eq_exp_minus_1)
  then show ?thesis by (simp add: take_bit_eq_mask)
qed

lemma LOWORD_uint: "LOWORD l = uint l mod 65536"
  by (simp add: LOWORD_def and_FFFF unsigned_ucast_eq unsigned_take_bit_eq take_bit_eq_mod
        uint_mod_distrib)

lemma HIWORD_uint: "HIWORD l = (uint l div 65536) mod 65536"
  by (simp add: HIWORD_def and_FFFF unsigned_ucast_eq unsigned_take_bit_eq take_bit_eq_mod
       unsigned_drop_bit_eq drop_bit_eq_div uint_mod_distrib uint_div_distrib)

lemma LOWORD_HIWORD_pack:
  assumes "0 \<le> a" "a < 65536" "0 \<le> b" "b < 65536"
  shows "LOWORD (word_of_int (a + 65536 * b)) = a \<and> HIWORD (word_of_int (a + 65536 * b)) = b"
proof -
  have "a + 65536 * b < 2 ^ 64" "0 \<le> a + 65536 * b" using assms by auto
  then have u: "uint (word_of_int (a + 65536 * b) :: 64 word) = a + 65536 * b"
    by (simp only: uint_word_of_int) simp
  show ?thesis using assms by (simp only: LOWORD_uint HIWORD_uint u) simp
qed

lemma WindowProc_Some:
  "WindowProc (Some w) uMsg wParam lParam u =
     (case WindowProc_switch w uMsg wParam lParam u of (w', u', calls) \<Rightarrow> (Some w', u', calls))"
  by (simp add: WindowProc_def)

text \<open>
  C10. A right-button message, button-down or button-up, that is processed while a
  mouse callback is registered invokes the callback with \<^verbatim>\<open>RightMouseButton\<close> and the
  action \<open>False\<close>: the pressed test compares the message with \<^verbatim>\<open>WM_LBUTTONDOWN\<close>, so
  a right-button press is never reported as pressed.
\<close>

theorem right_button_reported_released:
  "(uMsg = WM_RBUTTONDOWN \<or> uMsg = WM_RBUTTONUP)
   \<and> WindowMouseCallback (GetWindowCallbacks w) = Some callback \<longrightarrow>
   WindowProc (Some w) uMsg wParam lParam u
     = (Some w, callback RightMouseButton False u, [DefWindowProc_call])"
  by (auto simp: WindowProc_Some WindowProc_switch_def WM_defs RightMouseButton_def VK_defs)

theorem right_button_reported_released_witness:
  "WindowProc
     (Some (SetWindowMouseCallback (Some (\<lambda>button action u. u @ [(button, action)]))
              (Window_Create platform_ok Test_description)))
     WM_RBUTTONDOWN 0 0 []
   = (Some (SetWindowMouseCallback (Some (\<lambda>button action u. u @ [(button, action)]))
              (Window_Create platform_ok Test_description)),
      [(RightMouseButton, False)], [DefWindowProc_call])"
  using right_button_reported_released
    [of WM_RBUTTONDOWN
        "SetWindowMouseCallback (Some (\<lambda>button action u. u @ [(button, action)]))
           (Window_Create platform_ok Test_description)"
        "\<lambda>button action u. u @ [(button, action)]" 0 0 "[]"]
  by (simp add: Window_defs)

text \<open>
  C4. A close request. With a close callback registered that returns false, the
  window is as before the event, so \<^verbatim>\<open>GetIsRunning()\<close> keeps its value and remains true
  for a running window. With a registered callback that returns true, and with no
  callback registered, the window afterwards is the one with the flag cleared, for which
  \<^verbatim>\<open>GetIsRunning()\<close> is false.
\<close>

theorem close_request:
  "(WindowCloseCallback (GetWindowCallbacks w) = Some callback \<and> callback u = (False, u') \<longrightarrow>
      WindowProc (Some w) WM_CLOSE wParam lParam u = (Some w, u', []))
   \<and> (WindowCloseCallback (GetWindowCallbacks w) = Some callback \<and> callback u = (True, u') \<longrightarrow>
      WindowProc (Some w) WM_CLOSE wParam lParam u = (Some (Window_SetIsRunning False w), u', []))
   \<and> (WindowCloseCallback (GetWindowCallbacks w) = None \<longrightarrow>
      WindowProc (Some w) WM_CLOSE wParam lParam u = (Some (Window_SetIsRunning False w), u, []))
   \<and> \<not> Window_GetIsRunning (Window_SetIsRunning False w)"
  by (simp add: WindowProc_Some WindowProc_switch_def WM_defs Window_GetIsRunning_def
        Window_SetIsRunning_def)

theorem close_request_witness:
  "WindowProc
     (Some (SetWindowCloseCallback (Some (\<lambda>u. (False, Suc u)))
              (Window_Create platform_ok Test_description)))
     WM_CLOSE 0 0 0
   = (Some (SetWindowCloseCallback (Some (\<lambda>u. (False, Suc u)))
              (Window_Create platform_ok Test_description)), 1, [])
   \<and> Window_GetIsRunning (SetWindowCloseCallback (Some (\<lambda>u. (False, Suc u)))
              (Window_Create platform_ok Test_description))
   \<and> WindowProc
     (Some (SetWindowCloseCallback (Some (\<lambda>u. (True, Suc u)))
              (Window_Create platform_ok Test_description)))
     WM_CLOSE 0 0 0
   = (Some (Window_SetIsRunning False (SetWindowCloseCallback (Some (\<lambda>u. (True, Suc u)))
              (Window_Create platform_ok Test_description))), 1, [])
   \<and> WindowProc (Some (Window_Create platform_ok Test_description)) WM_CLOSE 0 0 (0 :: nat)
   = (Some (Window_SetIsRunning False (Window_Create platform_ok Test_description)), 0, [])"
  using close_request
    [of "SetWindowCloseCallback (Some (\<lambda>u. (False, Suc u)))
           (Window_Create platform_ok Test_description)"
        "\<lambda>u. (False, Suc u)" 0 1 0 0]
    close_request
    [of "SetWindowCloseCallback (Some (\<lambda>u. (True, Suc u)))
           (Window_Create platform_ok Test_description)"
        "\<lambda>u. (True, Suc u)" 0 1 0 0]
    close_request
    [of "Window_Create platform_ok Test_description :: nat Window"
        "\<lambda>u. (True, u)" 0 0 0 0]
  by (simp add: Window_defs)

text \<open>
  C3. After a resize event the description should hold the width and height the event
  carries, whether or not a resize callback is registered. The code stores them only
  inside the test for a registered callback: a window created 800 by 600 with no resize
  callback registered still reports 800 by 600 after the event loop has processed a
  resize event carrying 1024 and 768.
\<close>

theorem resize_without_callback_keeps_old_size:
  "LOWORD (MSG_lParam resize_1024_768) = 1024
   \<and> HIWORD (MSG_lParam resize_1024_768) = 768
   \<and> Width (GetWindowDescription
        (fst (Window_PollEvents [resize_1024_768]
                (Window_Create platform_ok Test_description, ())))) = 800
   \<and> Height (GetWindowDescription
        (fst (Window_PollEvents [resize_1024_768]
                (Window_Create platform_ok Test_description, ())))) = 600"
  by (simp add: example_defs Window_defs WindowProc_def WindowProc_switch_def WM_defs
        LOWORD_uint HIWORD_uint)

text \<open>
  The same event with a resize callback registered: the size is stored with
  \<^verbatim>\<open>SetWindowSize\<close> and the callback is invoked with it.
\<close>

lemma resize_with_callback:
  "WindowResizeCallback (GetWindowCallbacks w) = Some callback \<Longrightarrow>
   WindowProc (Some w) WM_SIZE wParam lParam u
     = (Some (SetWindowSize (LOWORD lParam) (HIWORD lParam) w),
        callback (LOWORD lParam) (HIWORD lParam) u, [DefWindowProc_call])
   \<and> Width (GetWindowDescription (SetWindowSize (LOWORD lParam) (HIWORD lParam) w))
       = LOWORD lParam
   \<and> Height (GetWindowDescription (SetWindowSize (LOWORD lParam) (HIWORD lParam) w))
       = HIWORD lParam"
  by (simp add: WindowProc_Some WindowProc_switch_def WM_defs SetWindowSize_def
        GetWindowDescription_def Let_def)

section \<open>Properties of the window facade and the application driver\<close>

text \<open>
  C8. \<^verbatim>\<open>Destroy\<close> leaves the running flag as it was: \<^verbatim>\<open>GetIsRunning()\<close> returns the
  same value after the call as before it, for \<^verbatim>\<open>Swindow::Window\<close> and for the
  \<^verbatim>\<open>Sengine::Window\<close> that delegates to it, whatever the value of the flag. The
  \<^verbatim>\<open>WM_DESTROY\<close> notification that the platform sends while the window is destroyed
  does not change the window either.
\<close>

theorem Destroy_keeps_running_flag:
  "Window_GetIsRunning (Window_Destroy n) = Window_GetIsRunning n
   \<and> (\<exists>this'. Sengine_Window_Destroy \<lparr>Sengine_m_NativeWindow = Some n\<rparr> = Inr this'
        \<and> Sengine_Window_GetIsRunning this'
            = Sengine_Window_GetIsRunning \<lparr>Sengine_m_NativeWindow = Some n\<rparr>
        \<and> Sengine_Window_GetIsRunning this' = Inr (m_IsRunning n))
   \<and> WindowProc (Some n) WM_DESTROY wParam lParam u = (Some n, u, [PostQuitMessage_call])"
  by (simp add: Window_GetIsRunning_def Window_Destroy_def Sengine_Window_Destroy_def
        Sengine_Window_GetIsRunning_def WindowProc_Some WindowProc_switch_def WM_defs)

lemma Sengine_Window_Create_result:
  "Sengine_Window_Create p description this =
     (this\<lparr>Sengine_m_NativeWindow :=
              Some (Window_CreateContext p 4 6 False (Window_Create p description))\<rparr>,
      Some Sengine_Window_new)"
  by (simp add: Sengine_Window_Create_def)

lemma Application_Init_cases:
  "Application_Init p app this =
     (case OnEarlyInit app (m_ClientApp this) of
        Inl e \<Rightarrow> Inl e
      | Inr (early, c1) \<Rightarrow>
          if \<not> early
          then Inr (False, this\<lparr>m_ClientApp := c1,
                                lifecycle := lifecycle this @ [OnEarlyInit_call]\<rparr>)
          else
            (case OnInit app c1 of
               Inl e \<Rightarrow> Inl e
             | Inr (init, c2) \<Rightarrow>
                 Inr (init,
                      this\<lparr>m_ClientApp := c2,
                           m_Window := Some (fst (Sengine_Window_Create p
                                          (App_GetWindowDescription app c1) Sengine_Window_new)),
                           lifecycle := lifecycle this
                             @ [OnEarlyInit_call, Window_Create_call, OnInit_call]\<rparr>)))"
  by (auto simp: Application_Init_def Sengine_Window_Create_result Let_def
           split: sum.splits prod.splits)

text \<open>
  C2. \<^verbatim>\<open>Sengine::Window::Create\<close> returns a non-null pointer for every description
  and every answer of the platform, also when \<^verbatim>\<open>CreateWindowEx\<close> gives no handle or no
  OpenGL context is created (the native window then has no handle, or no context).
  Hence the branch of \<^verbatim>\<open>Application::Init\<close> guarded by \<^verbatim>\<open>!m_Window->Create(...)\<close> is
  never taken: what \<^verbatim>\<open>Init\<close> returns is decided by \<^verbatim>\<open>OnEarlyInit\<close> and \<^verbatim>\<open>OnInit\<close>
  alone and does not depend on the platform's answers.
\<close>

theorem Window_Create_never_null:
  "(\<exists>r. snd (Sengine_Window_Create p description this) = Some r)
   \<and> (\<not> CreateWindowEx_ok p \<longrightarrow>
        (\<exists>n. Sengine_m_NativeWindow (fst (Sengine_Window_Create p description this)) = Some n
             \<and> \<not> m_WindowHandle (m_NativeWindow n)))
   \<and> (\<not> (wglCreateContextAttribsARB_found p \<and> glContext_ok p) \<longrightarrow>
        (\<exists>n. Sengine_m_NativeWindow (fst (Sengine_Window_Create p description this)) = Some n
             \<and> \<not> m_OpenGLContext (m_NativeWindow n)))
   \<and> map_sum id fst (Application_Init p app a) =
        (case OnEarlyInit app (m_ClientApp a) of
           Inl e \<Rightarrow> Inl e
         | Inr (early, c1) \<Rightarrow>
             if \<not> early then Inr False
             else (case OnInit app c1 of Inl e \<Rightarrow> Inl e | Inr (init, c2) \<Rightarrow> Inr init))"
  by (auto simp: Sengine_Window_Create_result Application_Init_cases Window_CreateContext_def
        Window_Create_def Win32NativeWindow_CreateContext_def Win32NativeWindow_new_def
        split: sum.splits prod.splits)

theorem Window_Create_never_null_witness:
  "\<not> CreateWindowEx_ok platform_failing
   \<and> \<not> (wglCreateContextAttribsARB_found platform_failing \<and> glContext_ok platform_failing)
   \<and> snd (Sengine_Window_Create platform_failing Test_description Sengine_Window_new)
       = Some Sengine_Window_new
   \<and> map_sum id fst (Application_Init platform_failing Editor_app (Application_new Editor_new))
       = Inr True"
  using Window_Create_never_null
    [of platform_failing Test_description Sengine_Window_new Editor_app
        "Application_new Editor_new"]
  by (simp add: example_defs Editor_defs Sengine_Window_Create_def Window_defs)

lemma Application_Tick_Cons:
  "Application_Tick app (f # rest) this =
     (case m_Window this of
        None \<Rightarrow> Inl NullPointerDereference
      | Some window \<Rightarrow>
          (case Sengine_Window_GetIsRunning window of
             Inl e \<Rightarrow> Inl e
           | Inr running \<Rightarrow>
               if \<not> running then Inr this
               else
                 (case Tick_body app f window this of
                    Inl e \<Rightarrow> Inl e
                  | Inr this' \<Rightarrow> Application_Tick app rest this')))"
  by (simp add: Application_Tick.simps [of app "f # rest"] split: option.split sum.split)

lemma Application_Tick_Nil:
  "Application_Tick app [] this =
     (case m_Window this of
        None \<Rightarrow> Inl NullPointerDereference
      | Some window \<Rightarrow>
          (case Sengine_Window_GetIsRunning window of
             Inl e \<Rightarrow> Inl e
           | Inr running \<Rightarrow> if \<not> running then Inr this else Inl InputExhausted))"
  by (simp add: Application_Tick.simps [of app "[]"] split: option.split sum.split)

lemma Tick_body_lifecycle:
  "Tick_body app f window this = Inr this1 \<Longrightarrow> lifecycle this1 = lifecycle this @ [OnTick_call]"
  by (auto simp: Tick_body_def Let_def split: sum.splits prod.splits if_splits)

lemma Application_Tick_returns:
  "Application_Tick app fs this = Inr this' \<Longrightarrow>
   \<exists>k window n. lifecycle this' = lifecycle this @ replicate k OnTick_call
      \<and> m_Window this' = Some window \<and> Sengine_m_NativeWindow window = Some n
      \<and> \<not> m_IsRunning n"
proof (induction fs arbitrary: this)
  case Nil
  then show ?case
    by (auto simp: Application_Tick_Nil Sengine_Window_GetIsRunning_def Window_GetIsRunning_def
             split: option.splits sum.splits if_splits)
next
  case (Cons f fs)
  show ?case
  proof (cases "m_Window this")
    case None
    with Cons.prems show ?thesis by (simp add: Application_Tick_Cons)
  next
    case (Some window)
    note window = this
    show ?thesis
    proof (cases "Sengine_m_NativeWindow window")
      case None
      with window Cons.prems show ?thesis
        by (simp add: Application_Tick_Cons Sengine_Window_GetIsRunning_def)
    next
      case (Some n)
      show ?thesis
      proof (cases "m_IsRunning n")
        case False
        with Some window Cons.prems have "this' = this"
          by (simp add: Application_Tick_Cons Sengine_Window_GetIsRunning_def
                Window_GetIsRunning_def)
        with Some window False show ?thesis
          by (intro exI [of _ 0]) simp
      next
        case True
        with Some window Cons.prems
        obtain this1 where b: "Tick_body app f window this = Inr this1"
          and r: "Application_Tick app fs this1 = Inr this'"
          by (auto simp: Application_Tick_Cons Sengine_Window_GetIsRunning_def
                Window_GetIsRunning_def split: sum.splits)
        from Cons.IH [OF r] obtain k window' n' where
          "lifecycle this' = lifecycle this1 @ replicate k OnTick_call"
          "m_Window this' = Some window'" "Sengine_m_NativeWindow window' = Some n'"
          "\<not> m_IsRunning n'"
          by blast
        with Tick_body_lifecycle [OF b] show ?thesis
          by (intro exI [of _ "Suc k"]) (simp add: replicate_app_Cons_same)
      qed
    qed
  qed
qed

text \<open>
  \<^verbatim>\<open>Destroy\<close>, for an application whose window and native window exist: the client
  object afterwards is what \<^verbatim>\<open>OnLateDestroy\<close> returns for what \<^verbatim>\<open>OnDestroy\<close> returned,
  and the native window is the destroyed one.
\<close>

lemma Application_Destroy_returns:
  assumes "m_Window this = Some window" "Sengine_m_NativeWindow window = Some n"
    and "OnDestroy app (m_ClientApp this) = Inr c1" "OnLateDestroy app c1 = Inr c2"
  shows "Application_Destroy app this =
           Inr (this\<lparr>m_ClientApp := c2,
                     m_Window := Some (window\<lparr>Sengine_m_NativeWindow := Some (Window_Destroy n)\<rparr>),
                     lifecycle := lifecycle this
                       @ [OnDestroy_call, Window_Destroy_call, OnLateDestroy_call]\<rparr>)"
  using assms by (simp add: Application_Destroy_def Sengine_Window_Destroy_def Let_def)

lemma Application_Destroy_only_so:
  assumes "Application_Destroy app this = Inr this'"
  shows "\<exists>window n c1 c2.
           m_Window this = Some window \<and> Sengine_m_NativeWindow window = Some n
           \<and> OnDestroy app (m_ClientApp this) = Inr c1 \<and> OnLateDestroy app c1 = Inr c2"
  using assms
  by (auto simp: Application_Destroy_def Sengine_Window_Destroy_def Let_def
           split: sum.splits option.splits)

lemma Application_Init_lifecycle:
  "Application_Init p app this = Inr (True, this1) \<Longrightarrow>
   lifecycle this1 = lifecycle this @ [OnEarlyInit_call, Window_Create_call, OnInit_call]"
  by (auto simp: Application_Init_cases split: sum.splits prod.splits if_splits)

text \<open>
  C5. A run of \<^verbatim>\<open>CreateApplication\<close>. When \<^verbatim>\<open>OnEarlyInit\<close> returns false the
  function returns and the application is as \<^verbatim>\<open>OnEarlyInit\<close> left it: no window, the
  client object that the hook returned, one recorded call. When \<^verbatim>\<open>OnInit\<close> returns
  false it returns with the created window, not destroyed, the client object that
  \<^verbatim>\<open>OnInit\<close> returned, and the three calls of \<^verbatim>\<open>Init\<close> recorded. In both cases
  \<^verbatim>\<open>OnTick\<close>, \<^verbatim>\<open>OnDestroy\<close> and \<^verbatim>\<open>OnLateDestroy\<close> have not run. When \<^verbatim>\<open>Init\<close> succeeds
  and the tick loop exits (the window no longer running), the teardown runs, its two
  hooks returning: the function returns, the client object is what \<^verbatim>\<open>OnLateDestroy\<close>
  made of what \<^verbatim>\<open>OnDestroy\<close> made of the client object the loop left, the native window
  is the destroyed one, without a handle, and the calls recorded after the \<^verbatim>\<open>OnTick\<close>
  calls of the loop are \<^verbatim>\<open>OnDestroy\<close>, \<^verbatim>\<open>Window::Destroy\<close>, \<^verbatim>\<open>OnLateDestroy\<close>, in this
  order. Every run that returns after a successful \<^verbatim>\<open>Init\<close> is such a run.
\<close>

theorem lifecycle_order:
  "(OnEarlyInit app c = Inr (False, c1) \<longrightarrow>
      CreateApplication p app fs c this
        = Inr (this\<lparr>m_ClientApp := c1, lifecycle := lifecycle this @ [OnEarlyInit_call]\<rparr>))
   \<and> (OnEarlyInit app c = Inr (True, c1) \<and> OnInit app c1 = Inr (False, c2) \<longrightarrow>
      CreateApplication p app fs c this
        = Inr (this\<lparr>m_ClientApp := c2,
                    m_Window := Some (fst (Sengine_Window_Create p
                                   (App_GetWindowDescription app c1) Sengine_Window_new)),
                    lifecycle := lifecycle this
                      @ [OnEarlyInit_call, Window_Create_call, OnInit_call]\<rparr>))
   \<and> (Application_Init p app (this\<lparr>m_ClientApp := c\<rparr>) = Inr (True, this1)
       \<and> Application_Tick app fs this1 = Inr this2
       \<and> OnDestroy app (m_ClientApp this2) = Inr c3 \<and> OnLateDestroy app c3 = Inr c4 \<longrightarrow>
      (\<exists>window n k.
         m_Window this2 = Some window \<and> Sengine_m_NativeWindow window = Some n
         \<and> \<not> m_IsRunning n
         \<and> lifecycle this2 = lifecycle this
              @ [OnEarlyInit_call, Window_Create_call, OnInit_call] @ replicate k OnTick_call
         \<and> CreateApplication p app fs c this
             = Inr (this2\<lparr>m_ClientApp := c4,
                          m_Window := Some (window\<lparr>Sengine_m_NativeWindow :=
                                                     Some (Window_Destroy n)\<rparr>),
                          lifecycle := lifecycle this
                            @ [OnEarlyInit_call, Window_Create_call, OnInit_call]
                            @ replicate k OnTick_call
                            @ [OnDestroy_call, Window_Destroy_call, OnLateDestroy_call]\<rparr>)
         \<and> \<not> m_WindowHandle (m_NativeWindow (Window_Destroy n))))
   \<and> (Application_Init p app (this\<lparr>m_ClientApp := c\<rparr>) = Inr (True, this1)
       \<and> CreateApplication p app fs c this = Inr this3 \<longrightarrow>
      (\<exists>this2 c3 c4 window n k.
         Application_Tick app fs this1 = Inr this2
         \<and> OnDestroy app (m_ClientApp this2) = Inr c3 \<and> OnLateDestroy app c3 = Inr c4
         \<and> m_Window this2 = Some window \<and> Sengine_m_NativeWindow window = Some n
         \<and> this3 = this2\<lparr>m_ClientApp := c4,
                          m_Window := Some (window\<lparr>Sengine_m_NativeWindow :=
                                                     Some (Window_Destroy n)\<rparr>),
                          lifecycle := lifecycle this
                            @ [OnEarlyInit_call, Window_Create_call, OnInit_call]
                            @ replicate k OnTick_call
                            @ [OnDestroy_call, Window_Destroy_call, OnLateDestroy_call]\<rparr>))"
proof (intro conjI impI)
  assume "OnEarlyInit app c = Inr (False, c1)"
  then show "CreateApplication p app fs c this
        = Inr (this\<lparr>m_ClientApp := c1, lifecycle := lifecycle this @ [OnEarlyInit_call]\<rparr>)"
    by (simp add: CreateApplication_def Application_Init_cases)
next
  assume "OnEarlyInit app c = Inr (True, c1) \<and> OnInit app c1 = Inr (False, c2)"
  then show "CreateApplication p app fs c this
        = Inr (this\<lparr>m_ClientApp := c2,
                    m_Window := Some (fst (Sengine_Window_Create p
                                   (App_GetWindowDescription app c1) Sengine_Window_new)),
                    lifecycle := lifecycle this
                      @ [OnEarlyInit_call, Window_Create_call, OnInit_call]\<rparr>)"
    by (simp add: CreateApplication_def Application_Init_cases)
next
  assume a: "Application_Init p app (this\<lparr>m_ClientApp := c\<rparr>) = Inr (True, this1)
       \<and> Application_Tick app fs this1 = Inr this2
       \<and> OnDestroy app (m_ClientApp this2) = Inr c3 \<and> OnLateDestroy app c3 = Inr c4"
  then have i: "lifecycle this1 = lifecycle this
                  @ [OnEarlyInit_call, Window_Create_call, OnInit_call]"
    using Application_Init_lifecycle [of p app "this\<lparr>m_ClientApp := c\<rparr>" this1] by simp
  from a obtain k window n where t: "lifecycle this2 = lifecycle this1 @ replicate k OnTick_call"
    and w: "m_Window this2 = Some window" "Sengine_m_NativeWindow window = Some n"
    and r: "\<not> m_IsRunning n"
    using Application_Tick_returns [of app fs this1 this2] by blast
  from a w have d: "Application_Destroy app this2 =
           Inr (this2\<lparr>m_ClientApp := c4,
                     m_Window := Some (window\<lparr>Sengine_m_NativeWindow := Some (Window_Destroy n)\<rparr>),
                     lifecycle := lifecycle this2
                       @ [OnDestroy_call, Window_Destroy_call, OnLateDestroy_call]\<rparr>)"
    using Application_Destroy_returns [of this2 window n app c3 c4] by simp
  from a d have "CreateApplication p app fs c this =
           Inr (this2\<lparr>m_ClientApp := c4,
                     m_Window := Some (window\<lparr>Sengine_m_NativeWindow := Some (Window_Destroy n)\<rparr>),
                     lifecycle := lifecycle this2
                       @ [OnDestroy_call, Window_Destroy_call, OnLateDestroy_call]\<rparr>)"
    by (simp add: CreateApplication_def)
  moreover have "\<not> m_WindowHandle (m_NativeWindow (Window_Destroy n))"
    by (simp add: Window_Destroy_def Win32NativeWindow_Destroy_def)
  ultimately show "\<exists>window n k.
         m_Window this2 = Some window \<and> Sengine_m_NativeWindow window = Some n
         \<and> \<not> m_IsRunning n
         \<and> lifecycle this2 = lifecycle this
              @ [OnEarlyInit_call, Window_Create_call, OnInit_call] @ replicate k OnTick_call
         \<and> CreateApplication p app fs c this
             = Inr (this2\<lparr>m_ClientApp := c4,
                          m_Window := Some (window\<lparr>Sengine_m_NativeWindow :=
                                                     Some (Window_Destroy n)\<rparr>),
                          lifecycle := lifecycle this
                            @ [OnEarlyInit_call, Window_Create_call, OnInit_call]
                            @ replicate k OnTick_call
                            @ [OnDestroy_call, Window_Destroy_call, OnLateDestroy_call]\<rparr>)
         \<and> \<not> m_WindowHandle (m_NativeWindow (Window_Destroy n))"
    using i t w r by (intro exI [of _ window] exI [of _ n] exI [of _ k]) simp
next
  assume a: "Application_Init p app (this\<lparr>m_ClientApp := c\<rparr>) = Inr (True, this1)
       \<and> CreateApplication p app fs c this = Inr this3"
  then have i: "lifecycle this1 = lifecycle this
                  @ [OnEarlyInit_call, Window_Create_call, OnInit_call]"
    using Application_Init_lifecycle [of p app "this\<lparr>m_ClientApp := c\<rparr>" this1] by simp
  from a obtain this2 where t: "Application_Tick app fs this1 = Inr this2"
    and d: "Application_Destroy app this2 = Inr this3"
    by (auto simp: CreateApplication_def split: sum.splits)
  from Application_Tick_returns [OF t] obtain k where
    l: "lifecycle this2 = lifecycle this1 @ replicate k OnTick_call" by blast
  from Application_Destroy_only_so [OF d] obtain window n c3 c4 where
    w: "m_Window this2 = Some window" "Sengine_m_NativeWindow window = Some n"
    and h: "OnDestroy app (m_ClientApp this2) = Inr c3" "OnLateDestroy app c3 = Inr c4"
    by blast
  from d Application_Destroy_returns [OF w h] i l
  have "this3 = this2\<lparr>m_ClientApp := c4,
                          m_Window := Some (window\<lparr>Sengine_m_NativeWindow :=
                                                     Some (Window_Destroy n)\<rparr>),
                          lifecycle := lifecycle this
                            @ [OnEarlyInit_call, Window_Create_call, OnInit_call]
                            @ replicate k OnTick_call
                            @ [OnDestroy_call, Window_Destroy_call, OnLateDestroy_call]\<rparr>"
    by simp
  with t w h show "\<exists>this2 c3 c4 window n k.
         Application_Tick app fs this1 = Inr this2
         \<and> OnDestroy app (m_ClientApp this2) = Inr c3 \<and> OnLateDestroy app c3 = Inr c4
         \<and> m_Window this2 = Some window \<and> Sengine_m_NativeWindow window = Some n
         \<and> this3 = this2\<lparr>m_ClientApp := c4,
                          m_Window := Some (window\<lparr>Sengine_m_NativeWindow :=
                                                     Some (Window_Destroy n)\<rparr>),
                          lifecycle := lifecycle this
                            @ [OnEarlyInit_call, Window_Create_call, OnInit_call]
                            @ replicate k OnTick_call
                            @ [OnDestroy_call, Window_Destroy_call, OnLateDestroy_call]\<rparr>"
    by blast
qed

lemma Editor_Init:
  "Application_Init platform_ok Editor_app ((Application_new Editor_new)\<lparr>m_ClientApp := Editor_new\<rparr>)
     = Inr (True,
            \<lparr>m_ClientApp = Editor_new\<lparr>Editor_m_WindowDescription :=
                             \<lparr>Title = ''Editor'', Width = 1270, Height = 720\<rparr>\<rparr>,
             m_Window = Some (fst (Sengine_Window_Create platform_ok
                          \<lparr>Title = ''Editor'', Width = 1270, Height = 720\<rparr> Sengine_Window_new)),
             lifecycle = [OnEarlyInit_call, Window_Create_call, OnInit_call]\<rparr>)"
  by (simp add: Application_Init_cases Editor_defs Application_new_def Editor_new_def)

lemma Editor_Tick:
  "Application_Tick Editor_app [closing_frame]
     \<lparr>m_ClientApp = Editor_new\<lparr>Editor_m_WindowDescription :=
                      \<lparr>Title = ''Editor'', Width = 1270, Height = 720\<rparr>\<rparr>,
      m_Window = Some (fst (Sengine_Window_Create platform_ok
                   \<lparr>Title = ''Editor'', Width = 1270, Height = 720\<rparr> Sengine_Window_new)),
      lifecycle = [OnEarlyInit_call, Window_Create_call, OnInit_call]\<rparr>
   = Inr \<lparr>m_ClientApp = Editor_new\<lparr>Editor_m_WindowDescription :=
                           \<lparr>Title = ''Editor'', Width = 1270, Height = 720\<rparr>\<rparr>,
          m_Window = Some \<lparr>Sengine_m_NativeWindow = Some (Window_SetIsRunning False
                        (Window_CreateContext platform_ok 4 6 False
                           (Window_Create platform_ok
                              \<lparr>Title = ''Editor'', Width = 1270, Height = 720\<rparr>)))\<rparr>,
          lifecycle = [OnEarlyInit_call, Window_Create_call, OnInit_call, OnTick_call]\<rparr>"
  by (simp add: example_defs Editor_defs Application_Tick_Cons Application_Tick_Nil Tick_body_def
        Sengine_Window_defs Window_defs WindowProc_def WindowProc_switch_def WM_defs initial_def
        BeginRender_cases DrawQuad_cases EndRender_def
        GetNativeKeyCodes_def GetNativeKeyCodes_keyMap_def KeyCode_defs VK_defs)

lemma replicate_single:
  "[x] = replicate k x \<Longrightarrow> k = Suc 0"
  by (cases k) auto

theorem lifecycle_order_witness:
  "CreateApplication platform_ok (Editor_app\<lparr>OnEarlyInit := (\<lambda>e. Inr (False, e))\<rparr>)
     [closing_frame] Editor_new (Application_new Editor_new)
     = Inr \<lparr>m_ClientApp = Editor_new, m_Window = None, lifecycle = [OnEarlyInit_call]\<rparr>
   \<and> CreateApplication platform_ok (Editor_app\<lparr>OnInit := (\<lambda>e. Inr (False, e))\<rparr>)
       [closing_frame] Editor_new (Application_new Editor_new)
     = Inr \<lparr>m_ClientApp = (Editor_new\<lparr>Editor_m_WindowDescription := \<lparr>Title = ''Editor'', Width = 1270, Height = 720\<rparr>\<rparr>),
            m_Window = Some (fst (Sengine_Window_Create platform_ok
                         \<lparr>Title = ''Editor'', Width = 1270, Height = 720\<rparr> Sengine_Window_new)),
            lifecycle = [OnEarlyInit_call, Window_Create_call, OnInit_call]\<rparr>
   \<and> CreateApplication platform_ok Editor_app
       [closing_frame] Editor_new (Application_new Editor_new)
     = Inr \<lparr>m_ClientApp = (Editor_new\<lparr>Editor_m_WindowDescription := \<lparr>Title = ''Editor'', Width = 1270, Height = 720\<rparr>\<rparr>),
            m_Window = Some \<lparr>Sengine_m_NativeWindow = Some (Window_Destroy
                         (Window_SetIsRunning False
                            (Window_CreateContext platform_ok 4 6 False
                               (Window_Create platform_ok
                                  \<lparr>Title = ''Editor'', Width = 1270, Height = 720\<rparr>))))\<rparr>,
            lifecycle = [OnEarlyInit_call, Window_Create_call, OnInit_call, OnTick_call,
                         OnDestroy_call, Window_Destroy_call, OnLateDestroy_call]\<rparr>"
proof (intro conjI)
  have "OnEarlyInit (Editor_app\<lparr>OnEarlyInit := (\<lambda>e. Inr (False, e))\<rparr>) Editor_new
          = Inr (False, Editor_new)"
    by simp
  with lifecycle_order
         [where app = "Editor_app\<lparr>OnEarlyInit := (\<lambda>e. Inr (False, e))\<rparr>"
            and c = Editor_new and ?c1.0 = Editor_new and p = platform_ok
            and fs = "[closing_frame]" and this = "Application_new Editor_new"]
  show "CreateApplication platform_ok (Editor_app\<lparr>OnEarlyInit := (\<lambda>e. Inr (False, e))\<rparr>)
     [closing_frame] Editor_new (Application_new Editor_new)
     = Inr \<lparr>m_ClientApp = Editor_new, m_Window = None, lifecycle = [OnEarlyInit_call]\<rparr>"
    by (simp add: Application_new_def)
next
  let ?e1 = "(Editor_new\<lparr>Editor_m_WindowDescription := \<lparr>Title = ''Editor'', Width = 1270, Height = 720\<rparr>\<rparr>)"
  have "OnEarlyInit (Editor_app\<lparr>OnInit := (\<lambda>e. Inr (False, e))\<rparr>) Editor_new = Inr (True, ?e1)
        \<and> OnInit (Editor_app\<lparr>OnInit := (\<lambda>e. Inr (False, e))\<rparr>) ?e1 = Inr (False, ?e1)"
    by (simp add: Editor_defs Editor_new_def)
  with lifecycle_order
         [where app = "Editor_app\<lparr>OnInit := (\<lambda>e. Inr (False, e))\<rparr>"
            and c = Editor_new and ?c1.0 = ?e1 and ?c2.0 = ?e1 and p = platform_ok
            and fs = "[closing_frame]" and this = "Application_new Editor_new"]
  show "CreateApplication platform_ok (Editor_app\<lparr>OnInit := (\<lambda>e. Inr (False, e))\<rparr>)
       [closing_frame] Editor_new (Application_new Editor_new)
     = Inr \<lparr>m_ClientApp = ?e1,
            m_Window = Some (fst (Sengine_Window_Create platform_ok
                         \<lparr>Title = ''Editor'', Width = 1270, Height = 720\<rparr> Sengine_Window_new)),
            lifecycle = [OnEarlyInit_call, Window_Create_call, OnInit_call]\<rparr>"
    by (simp add: Application_new_def Editor_defs Editor_new_def)
next
  let ?e1 = "(Editor_new\<lparr>Editor_m_WindowDescription := \<lparr>Title = ''Editor'', Width = 1270, Height = 720\<rparr>\<rparr>)"
  let ?n = "Window_SetIsRunning False
              (Window_CreateContext platform_ok 4 6 False
                 (Window_Create platform_ok
                    \<lparr>Title = ''Editor'', Width = 1270, Height = 720\<rparr>)) :: Editor Window"
  let ?this1 = "\<lparr>m_ClientApp = ?e1,
      m_Window = Some (fst (Sengine_Window_Create platform_ok
                   \<lparr>Title = ''Editor'', Width = 1270, Height = 720\<rparr> Sengine_Window_new)),
      lifecycle = [OnEarlyInit_call, Window_Create_call, OnInit_call]\<rparr>"
  let ?this2 = "\<lparr>m_ClientApp = ?e1,
          m_Window = Some \<lparr>Sengine_m_NativeWindow = Some ?n\<rparr>,
          lifecycle = [OnEarlyInit_call, Window_Create_call, OnInit_call, OnTick_call]\<rparr>"
  have d: "OnDestroy Editor_app (m_ClientApp ?this2) = Inr ?e1"
    by (simp add: Editor_defs)
  have ld: "OnLateDestroy Editor_app ?e1 = Inr ?e1"
    by (simp add: Editor_defs)
  have hyp: "Application_Init platform_ok Editor_app
               ((Application_new Editor_new)\<lparr>m_ClientApp := Editor_new\<rparr>) = Inr (True, ?this1)
       \<and> Application_Tick Editor_app [closing_frame] ?this1 = Inr ?this2
       \<and> OnDestroy Editor_app (m_ClientApp ?this2) = Inr ?e1
       \<and> OnLateDestroy Editor_app ?e1 = Inr ?e1"
    using Editor_Init Editor_Tick d ld by (intro conjI)
  from lifecycle_order
         [where app = Editor_app and c = Editor_new and p = platform_ok
            and fs = "[closing_frame]" and this = "Application_new Editor_new"
            and ?this1.0 = ?this1 and ?this2.0 = ?this2 and ?c3.0 = ?e1 and ?c4.0 = ?e1,
          THEN conjunct2, THEN conjunct2, THEN conjunct1, THEN mp, OF hyp]
  obtain window n k where
    w: "m_Window ?this2 = Some window" "Sengine_m_NativeWindow window = Some n"
    and l: "lifecycle ?this2 = lifecycle (Application_new Editor_new)
              @ [OnEarlyInit_call, Window_Create_call, OnInit_call] @ replicate k OnTick_call"
    and r: "CreateApplication platform_ok Editor_app [closing_frame] Editor_new
              (Application_new Editor_new)
             = Inr (?this2\<lparr>m_ClientApp := ?e1,
                          m_Window := Some (window\<lparr>Sengine_m_NativeWindow :=
                                                     Some (Window_Destroy n)\<rparr>),
                          lifecycle := lifecycle (Application_new Editor_new)
                            @ [OnEarlyInit_call, Window_Create_call, OnInit_call]
                            @ replicate k OnTick_call
                            @ [OnDestroy_call, Window_Destroy_call, OnLateDestroy_call]\<rparr>)"
    by blast
  from l have k: "k = Suc 0"
    by (simp add: Application_new_def replicate_single)
  from w have "window = \<lparr>Sengine_m_NativeWindow = Some ?n\<rparr>" and "n = ?n"
    by auto
  with r k show "CreateApplication platform_ok Editor_app
       [closing_frame] Editor_new (Application_new Editor_new)
     = Inr \<lparr>m_ClientApp = ?e1,
            m_Window = Some \<lparr>Sengine_m_NativeWindow = Some (Window_Destroy ?n)\<rparr>,
            lifecycle = [OnEarlyInit_call, Window_Create_call, OnInit_call, OnTick_call,
                         OnDestroy_call, Window_Destroy_call, OnLateDestroy_call]\<rparr>"
    by (simp add: Application_new_def)
qed

end
